theory Spec2Isabelle
  imports Main
begin

section \<open>Platform constants used by exceptionhandler.c\<close>

text \<open>
  The POSIX part of \<^verbatim>\<open>lib/exceptionhandler/exceptionhandler.c\<close> mentions signal numbers
  (\<^verbatim>\<open>SIGABRT\<close>, ...) and \<^verbatim>\<open>si_code\<close> values (\<^verbatim>\<open>SEGV_MAPERR\<close>, ...) that come from
  \<^verbatim>\<open>signal.h\<close>, and is compiled differently depending on \<^verbatim>\<open>_XOPEN_UNIX\<close> and
  \<^verbatim>\<open>__GLIBC__\<close>. None of these is fixed by the source file, so they are parameters of the
  model: a \<open>platform\<close> maps every macro name the file uses to its integer value.
\<close>

datatype signame =
    SIGABRT | SIGALRM | SIGBUS | SIGCHLD | SIGCONT | SIGFPE | SIGHUP | SIGILL | SIGINT
  | SIGKILL | SIGPIPE | SIGQUIT | SIGSEGV | SIGSTOP | SIGTERM | SIGTSTP | SIGTTIN
  | SIGTTOU | SIGUSR1 | SIGUSR2 | SIGPOLL | SIGPROF | SIGSYS | SIGTRAP | SIGURG
  | SIGVTALRM | SIGXCPU | SIGXFSZ

datatype codename =
    BUS_ADRALN | BUS_ADRERR | BUS_OBJERR
  | CLD_EXITED | CLD_KILLED | CLD_DUMPED | CLD_TRAPPED | CLD_STOPPED | CLD_CONTINUED
  | FPE_INTDIV | FPE_INTOVF | FPE_FLTDIV | FPE_FLTOVF | FPE_FLTUND | FPE_FLTRES
  | FPE_FLTINV | FPE_FLTSUB
  | ILL_ILLOPC | ILL_ILLOPN | ILL_ILLADR | ILL_ILLTRP | ILL_PRVOPC | ILL_PRVREG
  | ILL_COPROC | ILL_BADSTK
  | SEGV_MAPERR | SEGV_ACCERR
  | POLL_IN | POLL_OUT | POLL_MSG | POLL_ERR | POLL_PRI | POLL_HUP
  | TRAP_BRKPT | TRAP_TRACE

text \<open>
  What the preprocessor makes of the two conditions on \<^verbatim>\<open>POLL_ERR\<close> and \<^verbatim>\<open>POLL_HUP\<close> in
  \<^verbatim>\<open>wz_strsignal\<close>: \<^verbatim>\<open>defined(POLL_ERR) && defined(POLL_HUP) && (POLL_ERR != POLL_HUP)\<close>
  holds, or the same with \<^verbatim>\<open>==\<close> holds, or one of the names is no macro and neither
  holds. This is not decided by the \<^verbatim>\<open>si_code\<close> values: where the names are enumeration
  constants defined as macros of themselves (glibc), both count as 0 inside \<^verbatim>\<open>#if\<close> and
  compare equal, whatever their values are.
\<close>

datatype cpp_compare = Cpp_differ | Cpp_equal | Cpp_undefined

record platform =
  signo :: "signame \<Rightarrow> int"
  sicode :: "codename \<Rightarrow> int"
  XOPEN_UNIX :: bool
  GLIBC :: bool
  POLL_ERR_HUP :: cpp_compare
  PATH_MAX :: nat
  WIFEXITED :: "int \<Rightarrow> bool"
  WEXITSTATUS :: "int \<Rightarrow> int"

text \<open>The case labels of the outer \<^verbatim>\<open>switch (signum)\<close> of \<^verbatim>\<open>wz_strsignal\<close>, in source order.
  The labels inside \<^verbatim>\<open>#if _XOPEN_UNIX\<close> exist only on such a platform.\<close>

definition base_labels :: "signame list" where
  "base_labels =
     [SIGABRT, SIGALRM, SIGBUS, SIGCHLD, SIGCONT, SIGFPE, SIGHUP, SIGILL, SIGINT, SIGKILL,
      SIGPIPE, SIGQUIT, SIGSEGV, SIGSTOP, SIGTERM, SIGTSTP, SIGTTIN, SIGTTOU, SIGUSR1,
      SIGUSR2, SIGURG]"

definition xopen_labels :: "signame list" where
  "xopen_labels = [SIGPOLL, SIGPROF, SIGSYS, SIGTRAP, SIGVTALRM, SIGXCPU, SIGXFSZ]"

definition switch_labels :: "platform \<Rightarrow> int list" where
  "switch_labels P =
     map (signo P) (base_labels @ (if XOPEN_UNIX P then xopen_labels else []))"

definition CLD_codes :: "codename list" where
  "CLD_codes = [CLD_EXITED, CLD_KILLED, CLD_DUMPED, CLD_TRAPPED, CLD_STOPPED, CLD_CONTINUED]"

definition SEGV_codes :: "codename list" where
  "SEGV_codes = [SEGV_MAPERR, SEGV_ACCERR]"

text \<open>A C compiler rejects a \<^verbatim>\<open>switch\<close> with two equal case labels, so on every platform
  where the file compiles the labels of one switch are pairwise distinct.\<close>

definition labels_distinct :: "platform \<Rightarrow> bool" where
  "labels_distinct P \<longleftrightarrow> distinct (switch_labels P)"

text \<open>The values of Linux on x86 (\<^verbatim>\<open>asm/signal.h\<close>, \<^verbatim>\<open>asm-generic/siginfo.h\<close>, glibc's
  \<^verbatim>\<open>bits/waitstatus.h\<close>), used to run the model on concrete inputs.\<close>

fun linux_signo :: "signame \<Rightarrow> int" where
  "linux_signo SIGHUP = 1" | "linux_signo SIGINT = 2" | "linux_signo SIGQUIT = 3"
| "linux_signo SIGILL = 4" | "linux_signo SIGTRAP = 5" | "linux_signo SIGABRT = 6"
| "linux_signo SIGBUS = 7" | "linux_signo SIGFPE = 8" | "linux_signo SIGKILL = 9"
| "linux_signo SIGUSR1 = 10" | "linux_signo SIGSEGV = 11" | "linux_signo SIGUSR2 = 12"
| "linux_signo SIGPIPE = 13" | "linux_signo SIGALRM = 14" | "linux_signo SIGTERM = 15"
| "linux_signo SIGCHLD = 17" | "linux_signo SIGCONT = 18" | "linux_signo SIGSTOP = 19"
| "linux_signo SIGTSTP = 20" | "linux_signo SIGTTIN = 21" | "linux_signo SIGTTOU = 22"
| "linux_signo SIGURG = 23" | "linux_signo SIGXCPU = 24" | "linux_signo SIGXFSZ = 25"
| "linux_signo SIGVTALRM = 26" | "linux_signo SIGPROF = 27" | "linux_signo SIGPOLL = 29"
| "linux_signo SIGSYS = 31"

fun linux_sicode :: "codename \<Rightarrow> int" where
  "linux_sicode BUS_ADRALN = 1" | "linux_sicode BUS_ADRERR = 2" | "linux_sicode BUS_OBJERR = 3"
| "linux_sicode CLD_EXITED = 1" | "linux_sicode CLD_KILLED = 2" | "linux_sicode CLD_DUMPED = 3"
| "linux_sicode CLD_TRAPPED = 4" | "linux_sicode CLD_STOPPED = 5"
| "linux_sicode CLD_CONTINUED = 6"
| "linux_sicode FPE_INTDIV = 1" | "linux_sicode FPE_INTOVF = 2" | "linux_sicode FPE_FLTDIV = 3"
| "linux_sicode FPE_FLTOVF = 4" | "linux_sicode FPE_FLTUND = 5" | "linux_sicode FPE_FLTRES = 6"
| "linux_sicode FPE_FLTINV = 7" | "linux_sicode FPE_FLTSUB = 8"
| "linux_sicode ILL_ILLOPC = 1" | "linux_sicode ILL_ILLOPN = 2" | "linux_sicode ILL_ILLADR = 3"
| "linux_sicode ILL_ILLTRP = 4" | "linux_sicode ILL_PRVOPC = 5" | "linux_sicode ILL_PRVREG = 6"
| "linux_sicode ILL_COPROC = 7" | "linux_sicode ILL_BADSTK = 8"
| "linux_sicode SEGV_MAPERR = 1" | "linux_sicode SEGV_ACCERR = 2"
| "linux_sicode POLL_IN = 1" | "linux_sicode POLL_OUT = 2" | "linux_sicode POLL_MSG = 3"
| "linux_sicode POLL_ERR = 4" | "linux_sicode POLL_PRI = 5" | "linux_sicode POLL_HUP = 6"
| "linux_sicode TRAP_BRKPT = 1" | "linux_sicode TRAP_TRACE = 2"

definition linux :: platform where
  "linux = \<lparr> signo = linux_signo, sicode = linux_sicode, XOPEN_UNIX = True, GLIBC = True,
             POLL_ERR_HUP = Cpp_equal, PATH_MAX = 4096,
             WIFEXITED = (\<lambda>status. status mod 128 = 0),
             WEXITSTATUS = (\<lambda>status. (status div 256) mod 256) \<rparr>"

section \<open>Characters and string constants\<close>

definition LF :: char where "LF = CHR 0x0A"
definition NUL :: char where "NUL = CHR 0x00"
definition DQ :: char where "DQ = CHR 0x22"
definition SQ :: char where "SQ = CHR 0x27"

section \<open>Signal classifier: \<^verbatim>\<open>wz_strsignal\<close>\<close>

text \<open>
  The statements reached from the label \<^verbatim>\<open>case SIGCONT:\<close>. The inner switch of
  \<^verbatim>\<open>case SIGCHLD:\<close> has no \<^verbatim>\<open>default:\<close> and no \<^verbatim>\<open>break\<close> after it, so when none of
  its cases matches, control leaves the inner switch and continues at this label.
\<close>

definition at_case_SIGCONT :: string where
  "at_case_SIGCONT = ''SIGCONT: Continue executing, if stopped''"

definition strsignal_SIGBUS :: "platform \<Rightarrow> int \<Rightarrow> string" where
  "strsignal_SIGBUS P sigcode =
    (if sigcode = sicode P BUS_ADRALN then
       ''SIGBUS: Access to an undefined portion of a memory object: Invalid address alignment''
     else if sigcode = sicode P BUS_ADRERR then
       ''SIGBUS: Access to an undefined portion of a memory object: Nonexistent physical address''
     else if sigcode = sicode P BUS_OBJERR then
       ''SIGBUS: Access to an undefined portion of a memory object: Object-specific hardware error''
     else ''SIGBUS: Access to an undefined portion of a memory object'')"

definition strsignal_SIGCHLD :: "platform \<Rightarrow> int \<Rightarrow> string" where
  "strsignal_SIGCHLD P sigcode =
    (if sigcode = sicode P CLD_EXITED then
       ''SIGCHLD: Child process terminated, stopped, or continued: Child has exited''
     else if sigcode = sicode P CLD_KILLED then
       ''SIGCHLD: Child process terminated, stopped, or continued: Child has terminated abnormally and did not create a core file''
     else if sigcode = sicode P CLD_DUMPED then
       ''SIGCHLD: Child process terminated, stopped, or continued: Child has terminated abnormally and created a core file''
     else if sigcode = sicode P CLD_TRAPPED then
       ''SIGCHLD: Child process terminated, stopped, or continued: Traced child has trapped''
     else if sigcode = sicode P CLD_STOPPED then
       ''SIGCHLD: Child process terminated, stopped, or continued: Child has stopped''
     else if sigcode = sicode P CLD_CONTINUED then
       ''SIGCHLD: Child process terminated, stopped, or continued: Stopped child has continued''
     else at_case_SIGCONT)"

definition strsignal_SIGFPE :: "platform \<Rightarrow> int \<Rightarrow> string" where
  "strsignal_SIGFPE P sigcode =
    (if sigcode = sicode P FPE_INTDIV then
       ''SIGFPE: Erroneous arithmetic operation: Integer divide by zero''
     else if sigcode = sicode P FPE_INTOVF then
       ''SIGFPE: Erroneous arithmetic operation: Integer overflow''
     else if sigcode = sicode P FPE_FLTDIV then
       ''SIGFPE: Erroneous arithmetic operation: Floating-point divide by zero''
     else if sigcode = sicode P FPE_FLTOVF then
       ''SIGFPE: Erroneous arithmetic operation: Floating-point overflow''
     else if sigcode = sicode P FPE_FLTUND then
       ''SIGFPE: Erroneous arithmetic operation: Floating-point underflow''
     else if sigcode = sicode P FPE_FLTRES then
       ''SIGFPE: Erroneous arithmetic operation: Floating-point inexact result''
     else if sigcode = sicode P FPE_FLTINV then
       ''SIGFPE: Erroneous arithmetic operation: Invalid floating-point operation''
     else if sigcode = sicode P FPE_FLTSUB then
       ''SIGFPE: Erroneous arithmetic operation: Subscript out of range''
     else ''SIGFPE: Erroneous arithmetic operation'')"

definition strsignal_SIGILL :: "platform \<Rightarrow> int \<Rightarrow> string" where
  "strsignal_SIGILL P sigcode =
    (if sigcode = sicode P ILL_ILLOPC then ''SIGILL: Illegal instruction: Illegal opcode''
     else if sigcode = sicode P ILL_ILLOPN then ''SIGILL: Illegal instruction: Illegal operand''
     else if sigcode = sicode P ILL_ILLADR then
       ''SIGILL: Illegal instruction: Illegal addressing mode''
     else if sigcode = sicode P ILL_ILLTRP then ''SIGILL: Illegal instruction: Illegal trap''
     else if sigcode = sicode P ILL_PRVOPC then
       ''SIGILL: Illegal instruction: Privileged opcode''
     else if sigcode = sicode P ILL_PRVREG then
       ''SIGILL: Illegal instruction: Privileged register''
     else if sigcode = sicode P ILL_COPROC then
       ''SIGILL: Illegal instruction: Coprocessor error''
     else if sigcode = sicode P ILL_BADSTK then
       ''SIGILL: Illegal instruction: Internal stack error''
     else ''SIGILL: Illegal instruction'')"

definition strsignal_SIGSEGV :: "platform \<Rightarrow> int \<Rightarrow> string" where
  "strsignal_SIGSEGV P sigcode =
    (if sigcode = sicode P SEGV_MAPERR then
       ''SIGSEGV: Invalid memory reference: Address not mapped to object''
     else if sigcode = sicode P SEGV_ACCERR then
       ''SIGSEGV: Invalid memory reference: Invalid permissions for mapped object''
     else ''SIGSEGV: Invalid memory reference'')"

text \<open>The \<^verbatim>\<open>POLL_ERR\<close> and \<^verbatim>\<open>POLL_HUP\<close> cases are selected by the preprocessor: both
  separately when it finds the two different, one joint case (placed last) when it finds
  them equal, none of the three otherwise.\<close>

definition strsignal_SIGPOLL :: "platform \<Rightarrow> int \<Rightarrow> string" where
  "strsignal_SIGPOLL P sigcode =
    (if sigcode = sicode P POLL_IN then ''SIGPOLL: Pollable event: Data input available''
     else if sigcode = sicode P POLL_OUT then
       ''SIGPOLL: Pollable event: Output buffers available''
     else if sigcode = sicode P POLL_MSG then
       ''SIGPOLL: Pollable event: Input message available''
     else if POLL_ERR_HUP P = Cpp_differ \<and> sigcode = sicode P POLL_ERR then
       ''SIGPOLL: Pollable event: I/O error''
     else if sigcode = sicode P POLL_PRI then
       ''SIGPOLL: Pollable event: High priority input available''
     else if POLL_ERR_HUP P = Cpp_differ \<and> sigcode = sicode P POLL_HUP then
       ''SIGPOLL: Pollable event: Device disconnected.''
     else if POLL_ERR_HUP P = Cpp_equal \<and> sigcode = sicode P POLL_ERR then
       ''SIGPOLL: Pollable event: '' @ [DQ] @ ''I/O error'' @ [DQ] @ '' or '' @ [DQ]
         @ ''Device disconnected'' @ [DQ] @ ''.''
     else ''SIGPOLL: Pollable event'')"

definition strsignal_SIGTRAP :: "platform \<Rightarrow> int \<Rightarrow> string" where
  "strsignal_SIGTRAP P sigcode =
    (if sigcode = sicode P TRAP_BRKPT then
       ''SIGTRAP: Trace/breakpoint trap: Process breakpoint''
     else if sigcode = sicode P TRAP_TRACE then
       ''SIGTRAP: Trace/breakpoint trap: Process trace trap''
     else ''SIGTRAP: Trace/breakpoint trap'')"

definition wz_strsignal :: "platform \<Rightarrow> int \<Rightarrow> int \<Rightarrow> string" where
  "wz_strsignal P signum sigcode =
    (if signum = signo P SIGABRT then ''SIGABRT: Process abort signal''
     else if signum = signo P SIGALRM then ''SIGALRM: Alarm clock''
     else if signum = signo P SIGBUS then strsignal_SIGBUS P sigcode
     else if signum = signo P SIGCHLD then strsignal_SIGCHLD P sigcode
     else if signum = signo P SIGCONT then at_case_SIGCONT
     else if signum = signo P SIGFPE then strsignal_SIGFPE P sigcode
     else if signum = signo P SIGHUP then ''SIGHUP: Hangup''
     else if signum = signo P SIGILL then strsignal_SIGILL P sigcode
     else if signum = signo P SIGINT then ''SIGINT: Terminal interrupt signal''
     else if signum = signo P SIGKILL then ''SIGKILL: Kill''
     else if signum = signo P SIGPIPE then ''SIGPIPE: Write on a pipe with no one to read it''
     else if signum = signo P SIGQUIT then ''SIGQUIT: Terminal quit signal''
     else if signum = signo P SIGSEGV then strsignal_SIGSEGV P sigcode
     else if signum = signo P SIGSTOP then ''SIGSTOP: Stop executing''
     else if signum = signo P SIGTERM then ''SIGTERM: Termination signal''
     else if signum = signo P SIGTSTP then ''SIGTSTP: Terminal stop signal''
     else if signum = signo P SIGTTIN then ''SIGTTIN: Background process attempting read''
     else if signum = signo P SIGTTOU then ''SIGTTOU: Background process attempting write''
     else if signum = signo P SIGUSR1 then ''SIGUSR1: User-defined signal 1''
     else if signum = signo P SIGUSR2 then ''SIGUSR2: User-defined signal 2''
     else if XOPEN_UNIX P \<and> signum = signo P SIGPOLL then strsignal_SIGPOLL P sigcode
     else if XOPEN_UNIX P \<and> signum = signo P SIGPROF then ''SIGPROF: Profiling timer expired''
     else if XOPEN_UNIX P \<and> signum = signo P SIGSYS then ''SIGSYS: Bad system call''
     else if XOPEN_UNIX P \<and> signum = signo P SIGTRAP then strsignal_SIGTRAP P sigcode
     else if signum = signo P SIGURG then
       ''SIGURG: High bandwidth data is available at a socket''
     else if XOPEN_UNIX P \<and> signum = signo P SIGVTALRM then ''SIGVTALRM: Virtual timer expired''
     else if XOPEN_UNIX P \<and> signum = signo P SIGXCPU then ''SIGXCPU: CPU time limit exceeded''
     else if XOPEN_UNIX P \<and> signum = signo P SIGXFSZ then ''SIGXFSZ: File size limit exceeded''
     else ''Unknown signal'')"

section \<open>The process as the file sees it\<close>

text \<open>
  \<^verbatim>\<open>struct sigaction\<close>: the handler (\<^verbatim>\<open>sa_handler\<close> and \<^verbatim>\<open>sa_sigaction\<close> share storage, so
  one field stands for both), the mask and the flags. A handler is one of the two sentinels
  \<^verbatim>\<open>SIG_DFL\<close> and \<^verbatim>\<open>SIG_IGN\<close>, the address of \<^verbatim>\<open>posixExceptionHandler\<close>, or the address of
  some other function (numbered).
\<close>

datatype handler = SIG_DFL | SIG_IGN | PosixExceptionHandler | OtherHandler nat

datatype sa_flag = SA_SIGINFO | SA_NODEFER | SA_RESTART

record sigaction =
  sa_handler :: handler
  sa_mask :: "int set"
  sa_flags :: "sa_flag set"

record siginfo_t =
  si_signo :: int
  si_code :: int

text \<open>Every call that leaves the process (system call or library call with an effect) is
  recorded, with its arguments, in the order the code makes it. \<open>Printf\<close> is standard
  output; \<open>Write fd bytes\<close> is \<^verbatim>\<open>write(fd, bytes, length)\<close>.\<close>

datatype event =
    Raise int
  | Backtrace nat
  | Mkstemp string int
  | Printf string
  | DbgDumpHeader int
  | DbgDumpLog int
  | Write int string
  | BacktraceSymbolsFd int
  | Fsync int
  | Close int
  | Pipe "(int \<times> int) option"
  | Fork int
  | Dup2 int int
  | Execve string "string list" "string list"
  | Waitpid int int int
  | SigactionQuery int
  | SigactionSet int sigaction
  | Invoked handler int

text \<open>
  The file's static variables (\<open>allreadyRunning\<close> is the \<^verbatim>\<open>static sig_atomic_t\<close> local
  to \<^verbatim>\<open>posixExceptionHandler\<close>; \<open>oldAction\<close> is the array indexed by signal number), and
  the part of the kernel's per-process state the file acts on: the installed dispositions,
  the signal mask, the pending signals, the open descriptors.
\<close>

record proc =
  allreadyRunning :: bool
  oldAction :: "int \<Rightarrow> sigaction"
  gdbIsAvailable :: bool
  programIsAvailable :: bool
  programPID :: string
  programPath :: string
  gdbPath :: string
  dispositions :: "int \<Rightarrow> sigaction"
  sigmask :: "int set"
  sigpending :: "int set"
  open_fds :: "int set"
  trace :: "event list"

text \<open>What the operating system answers during one run of the handler. Each of these
  calls is made at most once per run. \<open>uninitialised\<close> is the indeterminate value of the
  local \<^verbatim>\<open>int gdbPipe\<close> of \<^verbatim>\<open>gdbExtendedBacktrace\<close> before \<^verbatim>\<open>execGdb\<close> assigns it.\<close>

record env =
  mkstemp_result :: int
  mkstemp_filename :: string
  pipe_result :: "(int \<times> int) option"
  fork_result :: int
  execve_returns :: bool
  waitpid_result :: int
  waitpid_status :: int
  uninitialised :: int

text \<open>A piece of code either returns (with a value and the new state) or control never
  comes back to it: \<^verbatim>\<open>execve\<close> replaced the image, \<^verbatim>\<open>exit\<close> was called, an \<^verbatim>\<open>assert\<close>
  failed, the default action of a signal ended the process, or a signal handler was
  entered that this model does not follow.\<close>

datatype stop = Image_replaced | Exited int | Assert_failed | Killed_by int | Handler_entered int

datatype 'a outcome = Returned 'a proc | Stopped stop proc

section \<open>The calls the file makes\<close>

definition emit :: "event \<Rightarrow> proc \<Rightarrow> proc" where
  "emit e s = s\<lparr>trace := trace s @ [e]\<rparr>"

definition printf :: "string \<Rightarrow> proc \<Rightarrow> proc" where
  "printf str s = emit (Printf str) s"

text \<open>\<^verbatim>\<open>write\<close>: the code never looks at the return value.\<close>

definition sys_write :: "int \<Rightarrow> string \<Rightarrow> proc \<Rightarrow> proc" where
  "sys_write fd bytes s = emit (Write fd bytes) s"

definition sys_close :: "int \<Rightarrow> proc \<Rightarrow> proc" where
  "sys_close fd s = (emit (Close fd) s)\<lparr>open_fds := open_fds s - {fd}\<rparr>"

definition sys_dup2 :: "int \<Rightarrow> int \<Rightarrow> proc \<Rightarrow> proc" where
  "sys_dup2 oldfd newfd s = (emit (Dup2 oldfd newfd) s)\<lparr>open_fds := insert newfd (open_fds s)\<rparr>"

definition sys_mkstemp :: "env \<Rightarrow> string \<Rightarrow> proc \<Rightarrow> proc" where
  "sys_mkstemp E template s =
     (let fd = mkstemp_result E; s1 = emit (Mkstemp template fd) s
      in if fd = -1 then s1 else s1\<lparr>open_fds := insert fd (open_fds s1)\<rparr>)"

definition sys_pipe :: "env \<Rightarrow> proc \<Rightarrow> proc" where
  "sys_pipe E s =
     (case pipe_result E of
        None \<Rightarrow> emit (Pipe None) s
      | Some (r, w) \<Rightarrow> (emit (Pipe (Some (r, w))) s)\<lparr>open_fds := open_fds s \<union> {r, w}\<rparr>)"

text \<open>\<^verbatim>\<open>sigaction(sig, NULL, &oldAction[sig])\<close> and \<^verbatim>\<open>sigaction(sig, &act, NULL)\<close>, for a
  signal whose disposition can be changed (every signal the file passes is one).\<close>

definition sigaction_query :: "int \<Rightarrow> proc \<Rightarrow> proc" where
  "sigaction_query sig s =
     (emit (SigactionQuery sig) s)\<lparr>oldAction := (oldAction s)(sig := dispositions s sig)\<rparr>"

definition sigaction_set :: "int \<Rightarrow> sigaction \<Rightarrow> proc \<Rightarrow> proc" where
  "sigaction_set sig act s =
     (emit (SigactionSet sig act) s)\<lparr>dispositions := (dispositions s)(sig := act)\<rparr>"

text \<open>
  \<^verbatim>\<open>raise(sig)\<close>, as POSIX defines it for the calling thread. A blocked signal stays
  pending and \<^verbatim>\<open>raise\<close> returns. An unblocked one is acted on before \<^verbatim>\<open>raise\<close> returns: the
  default action of the signals this file handles ends the process, an ignored signal is
  dropped, and a handler function is entered (which the model does not follow).
\<close>

definition sys_raise :: "int \<Rightarrow> proc \<Rightarrow> unit outcome" where
  "sys_raise sig s =
     (let s1 = emit (Raise sig) s in
      if sig \<in> sigmask s1 then Returned () (s1\<lparr>sigpending := insert sig (sigpending s1)\<rparr>)
      else (case sa_handler (dispositions s1 sig) of
              SIG_DFL \<Rightarrow> Stopped (Killed_by sig) s1
            | SIG_IGN \<Rightarrow> Returned () s1
            | PosixExceptionHandler \<Rightarrow> Stopped (Handler_entered sig) s1
            | OtherHandler h \<Rightarrow> Stopped (Handler_entered sig) s1))"

section \<open>Debugger orchestration: \<^verbatim>\<open>execGdb\<close> and \<^verbatim>\<open>gdbExtendedBacktrace\<close>\<close>

definition STDIN_FILENO :: int where "STDIN_FILENO = 0"
definition STDOUT_FILENO :: int where "STDOUT_FILENO = 1"

text \<open>
  \<open>execGdb E dumpFile gdbWritePipe s\<close>: \<open>gdbWritePipe\<close> is the value \<^verbatim>\<open>*gdbWritePipe\<close> holds on
  entry. The result is the returned pid with the value \<^verbatim>\<open>*gdbWritePipe\<close> holds on return.
  When \<^verbatim>\<open>fork\<close> answers 0 the model follows the child, which never returns from the
  function.
\<close>

definition execGdb :: "env \<Rightarrow> int \<Rightarrow> int \<Rightarrow> proc \<Rightarrow> (int \<times> int) outcome" where
  "execGdb E dumpFile gdbWritePipe s =
    (if \<not> programIsAvailable s \<or> \<not> gdbIsAvailable s then
       (let s1 = sys_write dumpFile (''No extended backtrace dumped:'' @ [LF]) s;
            s2 = (if \<not> programIsAvailable s1
                  then sys_write dumpFile (''- Program path not available'' @ [LF]) s1 else s1);
            s3 = (if \<not> gdbIsAvailable s2
                  then sys_write dumpFile (''- GDB not available'' @ [LF]) s2 else s2)
        in Returned (0, gdbWritePipe) s3)
     else
       (let s1 = sys_pipe E s in
        case pipe_result E of
          None \<Rightarrow>
            Returned (0, gdbWritePipe)
              (printf (''Pipe failed'' @ [LF]) (sys_write dumpFile (''Pipe failed'' @ [LF]) s1))
        | Some (gdbPipe0, gdbPipe1) \<Rightarrow>
            (let pid = fork_result E; s2 = emit (Fork pid) s1 in
             if pid = -1 then
               Returned (0, gdbWritePipe)
                 (sys_close gdbPipe1 (sys_close gdbPipe0
                    (printf (''Fork failed'' @ [LF])
                       (sys_write dumpFile (''Fork failed'' @ [LF]) s2))))
             else if pid \<noteq> 0 then Returned (pid, gdbPipe1) s2
             else
               (let gdbArgv = [gdbPath s2, programPath s2, programPID s2];
                    gdbEnv = [];
                    s3 = sys_close gdbPipe1 s2;
                    s4 = sys_dup2 gdbPipe0 STDIN_FILENO s3;
                    s5 = sys_dup2 dumpFile STDOUT_FILENO s4;
                    s6 = sys_write dumpFile (''GDB extended backtrace:'' @ [LF]) s5;
                    s7 = emit (Execve (gdbPath s6) gdbArgv gdbEnv) s6
                in if \<not> execve_returns E then Stopped Image_replaced s7
                   else Stopped (Exited 1)
                          (sys_write dumpFile
                             (''execcv('' @ [DQ] @ ''gdb'' @ [DQ] @ '') failed'' @ [LF]) s7)))))"

definition gdbCommands :: string where
  "gdbCommands = ''backtrace full'' @ [LF] @ ''frame 4'' @ [LF] @ ''disassemble'' @ [LF]
                 @ ''info registers'' @ [LF] @ ''quit'' @ [LF]"

text \<open>\<^verbatim>\<open>sizeof(gdbCommands)\<close> counts the terminating NUL, so it is written too. The
  \<^verbatim>\<open>assert\<close> is modelled as compiled in.\<close>

definition gdbExtendedBacktrace :: "platform \<Rightarrow> env \<Rightarrow> int \<Rightarrow> proc \<Rightarrow> bool outcome" where
  "gdbExtendedBacktrace P E dumpFile s =
    (case execGdb E dumpFile (uninitialised E) s of
       Stopped why s1 \<Rightarrow> Stopped why s1
     | Returned (pid, gdbPipe) s1 \<Rightarrow>
         if pid = 0 then Returned False s1
         else
           (let s2 = sys_write gdbPipe (gdbCommands @ [NUL]) s1;
                s3 = emit (Fsync gdbPipe) s2;
                wpid = waitpid_result E;
                status = waitpid_status E;
                s4 = emit (Waitpid pid wpid status) s3;
                s5 = sys_close gdbPipe s4
            in if wpid = -1 then
                 Returned False
                   (printf (''GDB failed'' @ [LF]) (sys_write dumpFile (''GDB failed'' @ [LF]) s5))
               else if pid \<noteq> wpid then Stopped Assert_failed s5
               else if \<not> WIFEXITED P status \<or> WEXITSTATUS P status \<noteq> 0 then
                 Returned False
                   (printf (''GDB failed'' @ [LF]) (sys_write dumpFile (''GDB failed'' @ [LF]) s5))
               else Returned True s5))"

section \<open>The fault responder: \<^verbatim>\<open>posixExceptionHandler\<close>\<close>

definition MAX_BACKTRACE :: nat where "MAX_BACKTRACE = 20"

definition gdmpPath :: string where
  "gdmpPath = ''/tmp/warzone2100.gdmp-XXXXXX''"

text \<open>The part of the handler between the creation of the dump file and the call of the
  debugger: lines 622 to 646 of the source.\<close>

definition dump_sections :: "platform \<Rightarrow> int \<Rightarrow> siginfo_t \<Rightarrow> proc \<Rightarrow> proc" where
  "dump_sections P dumpFile siginfo s =
    (let s1 = emit (DbgDumpHeader dumpFile) s;
         s2 = sys_write dumpFile ''Dump caused by signal: '' s1;
         signal = wz_strsignal P (si_signo siginfo) (si_code siginfo);
         s3 = sys_write dumpFile signal s2;
         s4 = sys_write dumpFile [LF, LF] s3;
         s5 = emit (DbgDumpLog dumpFile) s4;
         s6 = (if GLIBC P then
                 sys_write dumpFile [LF]
                   (emit (BacktraceSymbolsFd dumpFile)
                      (sys_write dumpFile (''GLIBC raw backtrace:'' @ [LF]) s5))
               else
                 sys_write dumpFile
                   (''GLIBC not available, no raw backtrace dumped'' @ [LF, LF]) s5)
     in emit (Fsync dumpFile) s6)"

definition posixExceptionHandler ::
    "platform \<Rightarrow> env \<Rightarrow> int \<Rightarrow> siginfo_t \<Rightarrow> proc \<Rightarrow> unit outcome" where
  "posixExceptionHandler P E signum siginfo s =
    (case (if allreadyRunning s then sys_raise signum s else Returned () s) of
       Stopped why s1 \<Rightarrow> Stopped why s1
     | Returned _ s1 \<Rightarrow>
        (let s2 = s1\<lparr>allreadyRunning := True\<rparr>;
             s3 = (if GLIBC P then emit (Backtrace MAX_BACKTRACE) s2 else s2);
             s4 = sys_mkstemp E gdmpPath s3;
             dumpFile = mkstemp_result E;
             dumpFilename = mkstemp_filename E
         in if dumpFile = -1 then
              Returned ()
                (printf (''Failed to create dump file '' @ [SQ] @ dumpFilename @ [SQ]) s4)
            else
              (case gdbExtendedBacktrace P E dumpFile (dump_sections P dumpFile siginfo s4) of
                 Stopped why s5 \<Rightarrow> Stopped why s5
               | Returned _ s5 \<Rightarrow>
                  (let s6 = printf (''Saved dump file to '' @ [SQ] @ dumpFilename @ [SQ] @ [LF]
                              @ ''If you create a bugreport regardings this crash, please include this file.''
                              @ [LF]) s5;
                       s7 = sys_close dumpFile s6;
                       s8 = sigaction_set signum (oldAction s7 signum) s7
                   in sys_raise signum s8))))"

section \<open>Delivery of a signal by the kernel\<close>

text \<open>
  What POSIX specifies around a handler installed with \<^verbatim>\<open>sigaction\<close>: while the handler
  runs, the mask is extended by \<open>sa_mask\<close> and, unless \<open>SA_NODEFER\<close> is set, by the
  signal itself; when the handler returns, the mask is restored and a pending, now
  unblocked signal is delivered according to the disposition installed at that moment.
  One episode is modelled: a second entry into \<open>posixExceptionHandler\<close> ends it.

  A blocked signal is not delivered. It stays pending, unless it is one of \<^verbatim>\<open>SIGBUS\<close>,
  \<^verbatim>\<open>SIGFPE\<close>, \<^verbatim>\<open>SIGILL\<close>, \<^verbatim>\<open>SIGSEGV\<close> generated by a fault of the program itself
  (\<open>si_code\<close> above 0; a signal sent by a process has \<open>si_code\<close> at most 0): POSIX
  leaves that case undefined, and Linux ends the process by the default action.
\<close>

definition synchronous_fault :: "platform \<Rightarrow> int \<Rightarrow> siginfo_t \<Rightarrow> bool" where
  "synchronous_fault P signum siginfo \<longleftrightarrow>
     signum \<in> set (map (signo P) [SIGBUS, SIGFPE, SIGILL, SIGSEGV]) \<and> 0 < si_code siginfo"

definition handler_return :: "int \<Rightarrow> int set \<Rightarrow> proc \<Rightarrow> unit outcome" where
  "handler_return signum old_mask s =
    (let s1 = s\<lparr>sigmask := old_mask\<rparr> in
     if signum \<in> sigpending s1 \<and> signum \<notin> sigmask s1 then
       (let s2 = s1\<lparr>sigpending := sigpending s1 - {signum}\<rparr> in
        case sa_handler (dispositions s2 signum) of
          SIG_DFL \<Rightarrow> Stopped (Killed_by signum) s2
        | SIG_IGN \<Rightarrow> Returned () s2
        | PosixExceptionHandler \<Rightarrow> Stopped (Handler_entered signum) s2
        | OtherHandler h \<Rightarrow> Returned () (emit (Invoked (OtherHandler h) signum) s2))
     else Returned () s1)"

definition deliver :: "platform \<Rightarrow> env \<Rightarrow> int \<Rightarrow> siginfo_t \<Rightarrow> proc \<Rightarrow> unit outcome" where
  "deliver P E signum siginfo s =
    (if signum \<in> sigmask s then
       (if synchronous_fault P signum siginfo then Stopped (Killed_by signum) s
        else Returned () (s\<lparr>sigpending := insert signum (sigpending s)\<rparr>))
     else
       (let act = dispositions s signum in
        case sa_handler act of
          SIG_DFL \<Rightarrow> Stopped (Killed_by signum) s
        | SIG_IGN \<Rightarrow> Returned () s
        | OtherHandler h \<Rightarrow> Returned () (emit (Invoked (OtherHandler h) signum) s)
        | PosixExceptionHandler \<Rightarrow>
           (let s1 = s\<lparr>sigmask := sigmask s \<union> sa_mask act
                           \<union> (if SA_NODEFER \<in> sa_flags act then {} else {signum})\<rparr>
            in case posixExceptionHandler P E signum siginfo s1 of
                 Stopped why s2 \<Rightarrow> Stopped why s2
               | Returned _ s2 \<Rightarrow> handler_return signum (sigmask s) s2)))"

section \<open>The registrar: \<^verbatim>\<open>setFatalSignalHandler\<close>\<close>

text \<open>The two statements the function repeats for each signal:
  \<^verbatim>\<open>sigaction(SIG, NULL, &oldAction[SIG]); if (oldAction[SIG].sa_handler != SIG_IGN)
  sigaction(SIG, &new_handler, NULL);\<close>\<close>

definition install_unless_ignored :: "sigaction \<Rightarrow> int \<Rightarrow> proc \<Rightarrow> proc" where
  "install_unless_ignored new_handler sig s =
    (let s1 = sigaction_query sig s in
     if sa_handler (oldAction s1 sig) \<noteq> SIG_IGN then sigaction_set sig new_handler s1 else s1)"

definition setFatalSignalHandler :: "platform \<Rightarrow> handler \<Rightarrow> proc \<Rightarrow> proc" where
  "setFatalSignalHandler P signalHandler s =
    (let new_handler = \<lparr>sa_handler = signalHandler, sa_mask = {}, sa_flags = {SA_SIGINFO}\<rparr>;
         s1 = install_unless_ignored new_handler (signo P SIGABRT) s;
         s2 = install_unless_ignored new_handler (signo P SIGBUS) s1;
         s3 = install_unless_ignored new_handler (signo P SIGFPE) s2;
         s4 = install_unless_ignored new_handler (signo P SIGILL) s3;
         s5 = install_unless_ignored new_handler (signo P SIGQUIT) s4;
         s6 = install_unless_ignored new_handler (signo P SIGSEGV) s5
     in if XOPEN_UNIX P then
          (let s7 = install_unless_ignored new_handler (signo P SIGSYS) s6;
               s8 = install_unless_ignored new_handler (signo P SIGTRAP) s7;
               s9 = install_unless_ignored new_handler (signo P SIGXCPU) s8
           in install_unless_ignored new_handler (signo P SIGXFSZ) s9)
        else s6)"

text \<open>The signals the function goes through, in source order.\<close>

definition fatal_signals :: "platform \<Rightarrow> signame list" where
  "fatal_signals P =
     [SIGABRT, SIGBUS, SIGFPE, SIGILL, SIGQUIT, SIGSEGV]
     @ (if XOPEN_UNIX P then [SIGSYS, SIGTRAP, SIGXCPU, SIGXFSZ] else [])"

section \<open>The tool locator: \<^verbatim>\<open>fetchProgramPath\<close>\<close>

text \<open>A buffer is a list of bytes. The C string it holds runs up to the first NUL;
  \<^verbatim>\<open>strlen\<close> is its length. \<^verbatim>\<open>strchr\<close> (for a character other than NUL) gives the index of
  the first occurrence inside that string, or nothing.\<close>

definition c_str :: "char list \<Rightarrow> string" where
  "c_str buf = takeWhile (\<lambda>c. c \<noteq> NUL) buf"

definition strlen :: "char list \<Rightarrow> nat" where
  "strlen buf = length (c_str buf)"

definition strchr :: "char list \<Rightarrow> char \<Rightarrow> nat option" where
  "strchr buf c =
     (if c \<in> set (c_str buf) then Some (length (takeWhile (\<lambda>x. x \<noteq> c) (c_str buf))) else None)"

datatype log_level = LOG_WARNING | LOG_WZ

text \<open>
  \<open>popen\<close> answers a command line with the bytes the stream delivers until end of file,
  or with nothing when \<^verbatim>\<open>popen\<close> returns \<^verbatim>\<open>NULL\<close>; the code passes that pointer to \<^verbatim>\<open>fread\<close>
  unchecked, which is undefined, so the model has no result there. The result holds the
  returned flag, the caller's buffer as the function leaves it, and the \<^verbatim>\<open>debug\<close> message.
\<close>

definition fetchProgramPath ::
    "platform \<Rightarrow> (string \<Rightarrow> char list option) \<Rightarrow> nat \<Rightarrow> string
       \<Rightarrow> (bool \<times> char list \<times> log_level \<times> string) option" where
  "fetchProgramPath P popen bufSize programCommand =
    (let whichProgramCommand = take (PATH_MAX P - 1) (''which '' @ programCommand);
         buf0 = replicate bufSize NUL
     in case popen whichProgramCommand of
          None \<Rightarrow> None
        | Some out \<Rightarrow>
           (let bytesRead = min (length out) bufSize;
                buf1 = take bytesRead out @ drop bytesRead buf0
            in if bytesRead = bufSize then
                 Some (False, buf1, LOG_WARNING,
                       ''Could not retrieve full path to '' @ [DQ] @ programCommand @ [DQ]
                       @ '', as our buffer is too small. This may prevent creation of an extended backtrace.'')
               else
                 (let linefeed = strchr buf1 LF;
                      buf2 = (case linefeed of None \<Rightarrow> buf1 | Some i \<Rightarrow> buf1[i := NUL])
                  in if strlen buf2 = 0 then
                       Some (False, buf2, LOG_WARNING,
                             ''Could not retrieve full path to '' @ [DQ] @ programCommand @ [DQ]
                             @ ''. This may prevent creation of an extended backtrace.'')
                     else
                       Some (True, buf2, LOG_WZ,
                             ''Found program '' @ [DQ] @ programCommand @ [DQ] @ '' at path ''
                             @ [DQ] @ c_str buf2 @ [DQ]))))"

section \<open>Observing a run\<close>

text \<open>The state a piece of code leaves behind, whether or not it returned, and the calls
  made between two states of one run.\<close>

definition final :: "'a outcome \<Rightarrow> proc" where
  "final out = (case out of Returned _ s \<Rightarrow> s | Stopped _ s \<Rightarrow> s)"

definition new_events :: "proc \<Rightarrow> proc \<Rightarrow> event list" where
  "new_events s s' = drop (length (trace s)) (trace s')"


section \<open>Concrete inputs\<close>

text \<open>A process on Linux whose locator found both paths, before the registrar has run:
  static storage is zero, so every \<open>oldAction\<close> entry holds \<^verbatim>\<open>SIG_DFL\<close> with no flags.\<close>

definition default_action :: sigaction where
  "default_action = \<lparr>sa_handler = SIG_DFL, sa_mask = {}, sa_flags = {}\<rparr>"

definition responder_action :: sigaction where
  "responder_action = \<lparr>sa_handler = PosixExceptionHandler, sa_mask = {}, sa_flags = {SA_SIGINFO}\<rparr>"

definition startup :: proc where
  "startup = \<lparr>allreadyRunning = False, oldAction = (\<lambda>sig. default_action),
               gdbIsAvailable = True, programIsAvailable = True,
               programPID = ''4711'', programPath = ''/usr/games/warzone2100'',
               gdbPath = ''/usr/bin/gdb'',
               dispositions = (\<lambda>sig. default_action),
               sigmask = {}, sigpending = {}, open_fds = {0, 1, 2}, trace = []\<rparr>"

text \<open>Answers of the operating system in a run where everything succeeds: the dump file
  is descriptor 3, the pipe is (4, 5), the debugger is process 4712 and exits with 0.\<close>

definition all_fine :: env where
  "all_fine = \<lparr>mkstemp_result = 3, mkstemp_filename = ''/tmp/warzone2100.gdmp-a1B2c3'',
                pipe_result = Some (4, 5), fork_result = 4712, execve_returns = False,
                waitpid_result = 4712, waitpid_status = 0, uninitialised = 0\<rparr>"

text \<open>The fault data of a segmentation fault on an unmapped address, on Linux.\<close>

definition segv_maperr :: siginfo_t where
  "segv_maperr = \<lparr>si_signo = 11, si_code = 1\<rparr>"

text \<open>The same process with a handler of its own (function number 7) installed for
  \<^verbatim>\<open>SIGSEGV\<close> (11), and with \<^verbatim>\<open>SIGQUIT\<close> (3) ignored, before the registrar runs.\<close>

definition with_previous_handler :: proc where
  "with_previous_handler =
     startup\<lparr>dispositions := (dispositions startup)
               (11 := \<lparr>sa_handler = OtherHandler 7, sa_mask = {}, sa_flags = {}\<rparr>,
                3 := \<lparr>sa_handler = SIG_IGN, sa_mask = {}, sa_flags = {}\<rparr>)\<rparr>"

text \<open>After the registrar has run in each of them.\<close>

definition installed :: proc where
  "installed = setFatalSignalHandler linux PosixExceptionHandler startup"

definition chained :: proc where
  "chained = setFatalSignalHandler linux PosixExceptionHandler with_previous_handler"

text \<open>The process while the handler runs for a first fault, \<^verbatim>\<open>SIGABRT\<close> (6), just after
  line 599: the flag is set and signal 6 is blocked.\<close>

definition during_first_fault :: proc where
  "during_first_fault = installed\<lparr>allreadyRunning := True, sigmask := {6}\<rparr>"

text \<open>A run in which \<^verbatim>\<open>mkstemp\<close> fails. glibc has by then replaced the \<^verbatim>\<open>XXXXXX\<close> of
  the buffer by the candidate it tried.\<close>

definition no_dump_file :: env where
  "no_dump_file = all_fine\<lparr>mkstemp_result := -1,
                            mkstemp_filename := ''/tmp/warzone2100.gdmp-Qx7Rt2''\<rparr>"

text \<open>A shell in which \<^verbatim>\<open>which gdb\<close> prints one line and every other command fails to
  start.\<close>

definition which_answers :: "string \<Rightarrow> char list option" where
  "which_answers cmd = (if cmd = ''which gdb'' then Some (''/usr/bin/gdb'' @ [LF]) else None)"

section \<open>Names for the parts of the handler\<close>

text \<open>The handler from the assignment of the flag (line 599) to the call of \<^verbatim>\<open>mkstemp\<close>
  (line 612), and from the message after the debugger returned (line 651) to the end.\<close>

definition before_dump :: "platform \<Rightarrow> env \<Rightarrow> proc \<Rightarrow> proc" where
  "before_dump P E s =
     sys_mkstemp E gdmpPath
       (if GLIBC P then emit (Backtrace MAX_BACKTRACE) (s\<lparr>allreadyRunning := True\<rparr>)
        else s\<lparr>allreadyRunning := True\<rparr>)"

definition after_dump :: "env \<Rightarrow> int \<Rightarrow> proc \<Rightarrow> unit outcome" where
  "after_dump E signum s5 =
     (let s6 = printf (''Saved dump file to '' @ [SQ] @ mkstemp_filename E @ [SQ] @ [LF]
                 @ ''If you create a bugreport regardings this crash, please include this file.''
                 @ [LF]) s5;
          s7 = sys_close (mkstemp_result E) s6;
          s8 = sigaction_set signum (oldAction s7 signum) s7
      in sys_raise signum s8)"

section \<open>Properties of the signal classifier\<close>

lemma labels_distinct_linux: "labels_distinct linux"
  by (simp add: labels_distinct_def switch_labels_def base_labels_def xopen_labels_def linux_def)

lemma signo_eq_iff:
  assumes "labels_distinct P" and "a \<in> set base_labels" and "b \<in> set base_labels"
  shows "signo P a = signo P b \<longleftrightarrow> a = b"
proof -
  have "distinct (map (signo P) base_labels)"
    using assms(1) by (simp add: labels_distinct_def switch_labels_def)
  then have "inj_on (signo P) (set base_labels)"
    by (simp add: distinct_map)
  then show ?thesis
    using assms(2,3) by (simp add: inj_on_eq_iff)
qed

lemma strsignal_sub_nonempty:
  "strsignal_SIGBUS P c \<noteq> []" "strsignal_SIGCHLD P c \<noteq> []" "strsignal_SIGFPE P c \<noteq> []"
  "strsignal_SIGILL P c \<noteq> []" "strsignal_SIGSEGV P c \<noteq> []" "strsignal_SIGPOLL P c \<noteq> []"
  "strsignal_SIGTRAP P c \<noteq> []"
  by (simp_all add: strsignal_SIGBUS_def strsignal_SIGCHLD_def strsignal_SIGFPE_def
      strsignal_SIGILL_def strsignal_SIGSEGV_def strsignal_SIGPOLL_def strsignal_SIGTRAP_def
      at_case_SIGCONT_def)

text \<open>The classifier is total and never returns the empty string.\<close>

lemma wz_strsignal_nonempty: "wz_strsignal P signum sigcode \<noteq> []"
  unfolding wz_strsignal_def by (simp add: strsignal_sub_nonempty at_case_SIGCONT_def)

text \<open>A signal number that is no case label of the outer switch gets the fallback.\<close>

lemma wz_strsignal_unknown:
  "signum \<notin> set (switch_labels P) \<Longrightarrow> wz_strsignal P signum sigcode = ''Unknown signal''"
  unfolding wz_strsignal_def switch_labels_def base_labels_def xopen_labels_def
  by (cases "XOPEN_UNIX P") simp_all

lemma SIGSEGV_not_earlier:
  assumes "labels_distinct P"
    and "x \<in> set [SIGABRT, SIGALRM, SIGBUS, SIGCHLD, SIGCONT, SIGFPE, SIGHUP, SIGILL, SIGINT,
                    SIGKILL, SIGPIPE, SIGQUIT]"
  shows "signo P SIGSEGV \<noteq> signo P x"
proof -
  have "x \<in> set base_labels" "SIGSEGV \<in> set base_labels" "SIGSEGV \<noteq> x"
    using assms(2) by (auto simp: base_labels_def)
  then show ?thesis using signo_eq_iff [OF assms(1)] by blast
qed

lemma wz_strsignal_SIGSEGV:
  assumes "labels_distinct P"
  shows "wz_strsignal P (signo P SIGSEGV) sigcode = strsignal_SIGSEGV P sigcode"
  unfolding wz_strsignal_def
  by (simp add: SIGSEGV_not_earlier [OF assms])

text \<open>A segmentation fault with cause \<^verbatim>\<open>SEGV_MAPERR\<close> is described by the string the
  end-to-end scenario expects; with a cause that matches no case, by the coarse
  description of the same signal.\<close>

lemma wz_strsignal_SEGV_MAPERR:
  "labels_distinct P \<Longrightarrow>
   wz_strsignal P (signo P SIGSEGV) (sicode P SEGV_MAPERR)
     = ''SIGSEGV: Invalid memory reference: Address not mapped to object''"
  by (simp add: wz_strsignal_SIGSEGV strsignal_SIGSEGV_def)

lemma wz_strsignal_SEGV_other:
  "labels_distinct P \<Longrightarrow> sigcode \<notin> set (map (sicode P) SEGV_codes) \<Longrightarrow>
   wz_strsignal P (signo P SIGSEGV) sigcode = ''SIGSEGV: Invalid memory reference''"
  by (simp add: wz_strsignal_SIGSEGV strsignal_SIGSEGV_def SEGV_codes_def)

lemma SIGCHLD_not_earlier:
  assumes "labels_distinct P"
  shows "signo P SIGCHLD \<noteq> signo P SIGABRT" "signo P SIGCHLD \<noteq> signo P SIGALRM"
    "signo P SIGCHLD \<noteq> signo P SIGBUS"
  by (simp_all add: signo_eq_iff [OF assms] base_labels_def)

lemma wz_strsignal_SIGCHLD:
  assumes "labels_distinct P"
  shows "wz_strsignal P (signo P SIGCHLD) sigcode = strsignal_SIGCHLD P sigcode"
  unfolding wz_strsignal_def
  by (simp add: SIGCHLD_not_earlier [OF assms])

text \<open>
  Claim C3. The classifier is total, returns a non-empty string, returns \<open>''Unknown signal''\<close>
  for every pair without a mapping, and never answers with another signal's description.
  The first two parts and the \<^verbatim>\<open>SEGV_MAPERR\<close> string hold (lemmas above). The last part
  fails for \<^verbatim>\<open>SIGCHLD\<close>: its inner switch is the only one without a \<^verbatim>\<open>default:\<close>, and no
  \<^verbatim>\<open>break\<close> follows it, so a \<^verbatim>\<open>SIGCHLD\<close> whose code is none of the six \<^verbatim>\<open>CLD_*\<close> values is
  described as \<^verbatim>\<open>SIGCONT\<close>.
\<close>

theorem wz_strsignal_SIGCHLD_falls_through:
  assumes "labels_distinct P" and "sigcode \<notin> set (map (sicode P) CLD_codes)"
  shows "wz_strsignal P (signo P SIGCHLD) sigcode = ''SIGCONT: Continue executing, if stopped''"
  using assms(2)
  by (simp add: wz_strsignal_SIGCHLD [OF assms(1)] strsignal_SIGCHLD_def at_case_SIGCONT_def
      CLD_codes_def)

text \<open>On Linux: \<^verbatim>\<open>SIGCHLD\<close> is 17, and code 0 (\<^verbatim>\<open>SI_USER\<close>, a \<^verbatim>\<open>SIGCHLD\<close> sent with
  \<^verbatim>\<open>kill\<close>) is none of the \<^verbatim>\<open>CLD_*\<close> values.\<close>

theorem wz_strsignal_SIGCHLD_falls_through_witness:
  "wz_strsignal linux 17 0 = ''SIGCONT: Continue executing, if stopped''
   \<and> wz_strsignal linux 17 0 \<noteq> ''Unknown signal''"
  using wz_strsignal_SIGCHLD_falls_through [of linux 0, OF labels_distinct_linux]
  by (simp add: CLD_codes_def linux_def)

section \<open>Properties of the debugger orchestration\<close>

lemmas call_defs = emit_def printf_def sys_write_def sys_close_def sys_dup2_def sys_pipe_def
  sys_mkstemp_def sigaction_query_def sigaction_set_def

text \<open>The five paths through \<^verbatim>\<open>execGdb\<close>.\<close>

lemma execGdb_unavailable:
  assumes "\<not> programIsAvailable s \<or> \<not> gdbIsAvailable s"
  shows "execGdb E dumpFile w s
         = Returned (0, w) (s\<lparr>trace := trace s
             @ [Write dumpFile (''No extended backtrace dumped:'' @ [LF])]
             @ (if \<not> programIsAvailable s
                then [Write dumpFile (''- Program path not available'' @ [LF])] else [])
             @ (if \<not> gdbIsAvailable s
                then [Write dumpFile (''- GDB not available'' @ [LF])] else [])\<rparr>)"
  using assms by (auto simp: execGdb_def call_defs Let_def)

lemma execGdb_pipe_failed:
  assumes "programIsAvailable s" "gdbIsAvailable s" "pipe_result E = None"
  shows "execGdb E dumpFile w s
         = Returned (0, w)
             (s\<lparr>trace := trace s @ [Pipe None, Write dumpFile (''Pipe failed'' @ [LF]),
                                   Printf (''Pipe failed'' @ [LF])]\<rparr>)"
  using assms by (simp add: execGdb_def call_defs Let_def)

lemma execGdb_fork_failed:
  assumes "programIsAvailable s" "gdbIsAvailable s" "pipe_result E = Some (r, wr)"
    "fork_result E = -1"
  shows "execGdb E dumpFile w s
         = Returned (0, w)
             (s\<lparr>trace := trace s @ [Pipe (Some (r, wr)), Fork (-1),
                    Write dumpFile (''Fork failed'' @ [LF]), Printf (''Fork failed'' @ [LF]),
                    Close r, Close wr],
                open_fds := open_fds s \<union> {r, wr} - {r} - {wr}\<rparr>)"
  using assms by (simp add: execGdb_def call_defs Let_def)

lemma execGdb_parent:
  assumes "programIsAvailable s" "gdbIsAvailable s" "pipe_result E = Some (r, wr)"
    "fork_result E \<noteq> -1" "fork_result E \<noteq> 0"
  shows "execGdb E dumpFile w s
         = Returned (fork_result E, wr)
             (s\<lparr>trace := trace s @ [Pipe (Some (r, wr)), Fork (fork_result E)],
                open_fds := open_fds s \<union> {r, wr}\<rparr>)"
  using assms by (simp add: execGdb_def call_defs Let_def)

lemma execGdb_child:
  assumes "programIsAvailable s" "gdbIsAvailable s" "pipe_result E = Some (r, wr)"
    "fork_result E = 0"
  shows "\<exists>why s'. execGdb E dumpFile w s = Stopped why s'"
  using assms by (simp add: execGdb_def call_defs Let_def)

text \<open>
  Claim C4. If the program path or the debugger path was not resolved, then
  \<^verbatim>\<open>gdbExtendedBacktrace\<close> returns false; the only calls it makes are the writes of the
  notes into the dump file (no \<^verbatim>\<open>pipe\<close>, no \<^verbatim>\<open>fork\<close>, no \<^verbatim>\<open>execve\<close>), and nothing else of
  the process changes.
\<close>

theorem gdbExtendedBacktrace_paths_unresolved:
  assumes "\<not> programIsAvailable s \<or> \<not> gdbIsAvailable s"
  shows "gdbExtendedBacktrace P E dumpFile s
         = Returned False (s\<lparr>trace := trace s
             @ [Write dumpFile (''No extended backtrace dumped:'' @ [LF])]
             @ (if \<not> programIsAvailable s
                then [Write dumpFile (''- Program path not available'' @ [LF])] else [])
             @ (if \<not> gdbIsAvailable s
                then [Write dumpFile (''- GDB not available'' @ [LF])] else [])\<rparr>)"
  by (simp add: gdbExtendedBacktrace_def execGdb_unavailable [OF assms])

theorem gdbExtendedBacktrace_paths_unresolved_witness:
  "gdbExtendedBacktrace linux all_fine 3 (startup\<lparr>gdbIsAvailable := False\<rparr>)
   = Returned False (startup\<lparr>gdbIsAvailable := False,
       trace := [Write 3 (''No extended backtrace dumped:'' @ [LF]),
                 Write 3 (''- GDB not available'' @ [LF])]\<rparr>)"
  using gdbExtendedBacktrace_paths_unresolved
    [of "startup\<lparr>gdbIsAvailable := False\<rparr>" linux all_fine 3]
  by (simp add: startup_def)

text \<open>
  Claim C10. Whenever \<^verbatim>\<open>execGdb\<close> returns 0, \<^verbatim>\<open>*gdbWritePipe\<close> holds the value it held on
  entry, and every descriptor the attempt got from \<^verbatim>\<open>pipe\<close> has been closed again. The
  function returns 0 exactly on the three failure paths; otherwise it returns the pid that
  \<^verbatim>\<open>fork\<close> gave the parent, and \<^verbatim>\<open>*gdbWritePipe\<close> holds the write end of the pipe.
\<close>

theorem execGdb_failure_leaves_gdbWritePipe:
  assumes "execGdb E dumpFile w s = Returned (pid, w') s'"
  shows "(pid = 0 \<longrightarrow> w' = w
            \<and> (\<forall>r wr. Pipe (Some (r, wr)) \<in> set (new_events s s') \<longrightarrow>
                  Close r \<in> set (new_events s s') \<and> Close wr \<in> set (new_events s s')
                  \<and> r \<notin> open_fds s' \<and> wr \<notin> open_fds s'))
       \<and> (pid \<noteq> 0 \<longrightarrow> pid = fork_result E \<and> (\<exists>r. pipe_result E = Some (r, w')))
       \<and> (pid = 0 \<longleftrightarrow> \<not> programIsAvailable s \<or> \<not> gdbIsAvailable s
                         \<or> pipe_result E = None \<or> fork_result E = -1)"
proof (cases "\<not> programIsAvailable s \<or> \<not> gdbIsAvailable s")
  case True
  show ?thesis
    using assms True unfolding execGdb_unavailable [OF True]
    by (auto simp: new_events_def)
next
  case avail: False
  show ?thesis
  proof (cases "pipe_result E")
    case None
    show ?thesis
      using assms avail None execGdb_pipe_failed [of s E dumpFile w]
      by (auto simp: new_events_def)
  next
    case (Some p)
    obtain r wr where p: "pipe_result E = Some (r, wr)"
      using Some by (cases p) simp
    consider "fork_result E = -1" | "fork_result E = 0"
      | "fork_result E \<noteq> -1" "fork_result E \<noteq> 0" by blast
    then show ?thesis
    proof cases
      case 1
      show ?thesis
        using assms avail p 1 execGdb_fork_failed [of s E r wr dumpFile w]
        by (auto simp: new_events_def)
    next
      case 2
      then show ?thesis
        using assms avail p execGdb_child [of s E r wr dumpFile w] by auto
    next
      case 3
      then show ?thesis
        using assms avail p execGdb_parent [of s E r wr dumpFile w]
        by (auto simp: new_events_def)
    qed
  qed
qed

text \<open>A failed \<^verbatim>\<open>fork\<close> (the pipe (4, 5) is closed again, the caller's 99 stays), and a
  successful one (the caller gets 5).\<close>

theorem execGdb_failure_leaves_gdbWritePipe_witness:
  "(\<exists>s'. execGdb (all_fine\<lparr>fork_result := -1\<rparr>) 3 99 startup = Returned (0, 99) s'
      \<and> Pipe (Some (4, 5)) \<in> set (new_events startup s')
      \<and> Close 4 \<in> set (new_events startup s') \<and> Close 5 \<in> set (new_events startup s')
      \<and> 4 \<notin> open_fds s' \<and> 5 \<notin> open_fds s')
   \<and> (\<exists>s'. execGdb all_fine 3 99 startup = Returned (4712, 5) s')"
proof -
  have a: "programIsAvailable startup" "gdbIsAvailable startup"
    by (simp_all add: startup_def)
  have f: "pipe_result (all_fine\<lparr>fork_result := -1\<rparr>) = Some (4, 5)"
    "fork_result (all_fine\<lparr>fork_result := -1\<rparr>) = -1"
    by (simp_all add: all_fine_def)
  have p: "pipe_result all_fine = Some (4, 5)" "fork_result all_fine \<noteq> -1"
    "fork_result all_fine \<noteq> 0" "fork_result all_fine = 4712"
    by (simp_all add: all_fine_def)
  define s1 where "s1 = startup\<lparr>trace := trace startup @ [Pipe (Some (4, 5)), Fork (-1),
                Write 3 (''Fork failed'' @ [LF]), Printf (''Fork failed'' @ [LF]),
                Close 4, Close 5],
              open_fds := open_fds startup \<union> {4, 5} - {4} - {5}\<rparr>"
  have e1: "execGdb (all_fine\<lparr>fork_result := -1\<rparr>) 3 99 startup = Returned (0, 99) s1"
    unfolding s1_def by (rule execGdb_fork_failed [OF a f])
  note e2 = execGdb_parent [OF a p(1,2,3), of 3 99]
  have "Pipe (Some (4, 5)) \<in> set (new_events startup s1)"
    by (simp add: new_events_def s1_def)
  with execGdb_failure_leaves_gdbWritePipe [OF e1]
  have "Close 4 \<in> set (new_events startup s1) \<and> Close 5 \<in> set (new_events startup s1)
        \<and> 4 \<notin> open_fds s1 \<and> 5 \<notin> open_fds s1"
    by blast
  then show ?thesis
    using e1 e2 p(4) \<open>Pipe (Some (4, 5)) \<in> set (new_events startup s1)\<close> by simp
qed

text \<open>A run of \<^verbatim>\<open>gdbExtendedBacktrace\<close> in the parent after a successful \<^verbatim>\<open>fork\<close>.\<close>

lemma gdbExtendedBacktrace_spawned:
  assumes "programIsAvailable s" and "gdbIsAvailable s"
    and "pipe_result E = Some (r, wr)"
    and "fork_result E = pid" and "pid \<noteq> -1" and "pid \<noteq> 0"
    and "waitpid_result E = -1 \<or> waitpid_result E = pid"
  shows "gdbExtendedBacktrace P E dumpFile s
         = (let ok = (waitpid_result E \<noteq> -1 \<and> WIFEXITED P (waitpid_status E)
                        \<and> WEXITSTATUS P (waitpid_status E) = 0)
            in Returned ok
                 (s\<lparr>trace := trace s
                       @ [Pipe (Some (r, wr)), Fork pid, Write wr (gdbCommands @ [NUL]), Fsync wr,
                          Waitpid pid (waitpid_result E) (waitpid_status E), Close wr]
                       @ (if ok then []
                          else [Write dumpFile (''GDB failed'' @ [LF]),
                                Printf (''GDB failed'' @ [LF])]),
                     open_fds := open_fds s \<union> {r, wr} - {wr}\<rparr>))"
proof -
  have e: "execGdb E dumpFile (uninitialised E) s
         = Returned (pid, wr) (s\<lparr>trace := trace s @ [Pipe (Some (r, wr)), Fork pid],
              open_fds := open_fds s \<union> {r, wr}\<rparr>)"
    using execGdb_parent [of s E r wr dumpFile "uninitialised E"] assms by simp
  show ?thesis
    using assms(5,6,7)
    by (auto simp: gdbExtendedBacktrace_def e call_defs Let_def)
qed

text \<open>
  Claim C6, as the code has it. Once a child was spawned, \<^verbatim>\<open>gdbExtendedBacktrace\<close> returns
  true if and only if \<^verbatim>\<open>waitpid\<close> did not fail and the child exited normally with status 0.
  In every other case it returns false after writing \<open>''GDB failed''\<close> into the dump file
  and printing it with \<^verbatim>\<open>printf\<close>, that is, to standard output. (\<^verbatim>\<open>waitpid\<close> for one child
  answers -1 or that child's pid, which is what the \<^verbatim>\<open>assert\<close> states.)
\<close>

theorem gdbExtendedBacktrace_status_mapping:
  assumes "programIsAvailable s" and "gdbIsAvailable s"
    and "pipe_result E = Some (r, wr)"
    and "fork_result E = pid" and "pid \<noteq> -1" and "pid \<noteq> 0"
    and "waitpid_result E = -1 \<or> waitpid_result E = pid"
  shows "gdbExtendedBacktrace P E dumpFile s
         = (let ok = (waitpid_result E \<noteq> -1 \<and> WIFEXITED P (waitpid_status E)
                        \<and> WEXITSTATUS P (waitpid_status E) = 0)
            in Returned ok
                 (s\<lparr>trace := trace s
                       @ [Pipe (Some (r, wr)), Fork pid, Write wr (gdbCommands @ [NUL]), Fsync wr,
                          Waitpid pid (waitpid_result E) (waitpid_status E), Close wr]
                       @ (if ok then []
                          else [Write dumpFile (''GDB failed'' @ [LF]),
                                Printf (''GDB failed'' @ [LF])]),
                     open_fds := open_fds s \<union> {r, wr} - {wr}\<rparr>))"
  using assms by (rule gdbExtendedBacktrace_spawned)

text \<open>The debugger exits with status 1 (wait status 256).\<close>

theorem gdbExtendedBacktrace_status_mapping_witness:
  "gdbExtendedBacktrace linux (all_fine\<lparr>waitpid_status := 256\<rparr>) 3 startup
   = Returned False
       (startup\<lparr>trace := [Pipe (Some (4, 5)), Fork 4712, Write 5 (gdbCommands @ [NUL]), Fsync 5,
                   Waitpid 4712 4712 256, Close 5, Write 3 (''GDB failed'' @ [LF]),
                   Printf (''GDB failed'' @ [LF])],
                open_fds := {0, 1, 2, 4}\<rparr>)"
  using gdbExtendedBacktrace_status_mapping
    [of startup "all_fine\<lparr>waitpid_status := 256\<rparr>" 4 5 4712 linux 3]
  by (auto simp: startup_def all_fine_def linux_def)

text \<open>
  Claim C6 as stated says the note also goes to standard error. In the same run nothing
  is written to descriptor 2; the note is printed to standard output.
\<close>

theorem gdb_failed_note_not_on_stderr:
  "Write 2 (''GDB failed'' @ [LF])
     \<notin> set (new_events startup
               (final (gdbExtendedBacktrace linux (all_fine\<lparr>waitpid_status := 256\<rparr>) 3 startup)))
   \<and> Printf (''GDB failed'' @ [LF])
     \<in> set (new_events startup
               (final (gdbExtendedBacktrace linux (all_fine\<lparr>waitpid_status := 256\<rparr>) 3 startup)))"
  by (simp add: gdbExtendedBacktrace_def execGdb_def call_defs Let_def startup_def all_fine_def
      linux_def final_def new_events_def)

section \<open>Properties of the registrar\<close>

lemma install_unless_ignored_fields:
  "dispositions (install_unless_ignored nh sig s)
     = (if sa_handler (dispositions s sig) \<noteq> SIG_IGN then (dispositions s)(sig := nh)
        else dispositions s)"
  "oldAction (install_unless_ignored nh sig s) = (oldAction s)(sig := dispositions s sig)"
  "trace (install_unless_ignored nh sig s)
     = trace s @ SigactionQuery sig
         # (if sa_handler (dispositions s sig) \<noteq> SIG_IGN then [SigactionSet sig nh] else [])"
  "allreadyRunning (install_unless_ignored nh sig s) = allreadyRunning s"
  "sigmask (install_unless_ignored nh sig s) = sigmask s"
  "sigpending (install_unless_ignored nh sig s) = sigpending s"
  "open_fds (install_unless_ignored nh sig s) = open_fds s"
  "programIsAvailable (install_unless_ignored nh sig s) = programIsAvailable s"
  "gdbIsAvailable (install_unless_ignored nh sig s) = gdbIsAvailable s"
  by (simp_all add: install_unless_ignored_def call_defs Let_def)

lemma setFatalSignalHandler_fold:
  "setFatalSignalHandler P signalHandler s
   = fold (install_unless_ignored \<lparr>sa_handler = signalHandler, sa_mask = {}, sa_flags = {SA_SIGINFO}\<rparr>)
       (map (signo P) (fatal_signals P)) s"
  by (simp add: setFatalSignalHandler_def fatal_signals_def Let_def)

lemma fold_install_unchanged:
  "allreadyRunning (fold (install_unless_ignored nh) sigs s) = allreadyRunning s"
  "sigmask (fold (install_unless_ignored nh) sigs s) = sigmask s"
  "sigpending (fold (install_unless_ignored nh) sigs s) = sigpending s"
  "open_fds (fold (install_unless_ignored nh) sigs s) = open_fds s"
  "programIsAvailable (fold (install_unless_ignored nh) sigs s) = programIsAvailable s"
  "gdbIsAvailable (fold (install_unless_ignored nh) sigs s) = gdbIsAvailable s"
  by (induction sigs arbitrary: s; simp add: install_unless_ignored_fields)+

lemma fold_install_dispositions:
  "distinct sigs \<Longrightarrow>
   dispositions (fold (install_unless_ignored nh) sigs s) sig
   = (if sig \<in> set sigs \<and> sa_handler (dispositions s sig) \<noteq> SIG_IGN then nh
      else dispositions s sig)"
  by (induction sigs arbitrary: s) (auto simp: install_unless_ignored_fields)

lemma fold_install_oldAction:
  "distinct sigs \<Longrightarrow>
   oldAction (fold (install_unless_ignored nh) sigs s) sig
   = (if sig \<in> set sigs then dispositions s sig else oldAction s sig)"
  by (induction sigs arbitrary: s) (auto simp: install_unless_ignored_fields)

lemma fold_install_trace:
  "distinct sigs \<Longrightarrow>
   trace (fold (install_unless_ignored nh) sigs s)
   = trace s @ concat (map (\<lambda>sig. SigactionQuery sig
         # (if sa_handler (dispositions s sig) \<noteq> SIG_IGN then [SigactionSet sig nh] else []))
       sigs)"
proof (induction sigs arbitrary: s)
  case Nil
  then show ?case by simp
next
  case (Cons x xs)
  let ?g = "\<lambda>st sig. SigactionQuery sig
         # (if sa_handler (dispositions st sig) \<noteq> SIG_IGN then [SigactionSet sig nh] else [])"
  let ?s1 = "install_unless_ignored nh x s"
  have same: "\<And>y. y \<in> set xs \<Longrightarrow> dispositions ?s1 y = dispositions s y"
    using Cons.prems by (auto simp: install_unless_ignored_fields)
  have eq: "map (?g ?s1) xs = map (?g s) xs"
    by (rule map_cong) (simp_all only: same)
  have "trace (fold (install_unless_ignored nh) (x # xs) s)
        = trace ?s1 @ concat (map (?g ?s1) xs)"
    using Cons.IH [of ?s1] Cons.prems by simp
  also have "\<dots> = trace ?s1 @ concat (map (?g s) xs)"
    by (simp only: eq)
  also have "\<dots> = trace s @ ?g s x @ concat (map (?g s) xs)"
    by (simp add: install_unless_ignored_fields(3))
  finally show ?case by simp
qed

lemma fatal_signals_distinct:
  assumes "labels_distinct P"
  shows "distinct (map (signo P) (fatal_signals P))"
proof -
  let ?all = "base_labels @ (if XOPEN_UNIX P then xopen_labels else [])"
  have "distinct (map (signo P) ?all)"
    using assms by (simp only: labels_distinct_def switch_labels_def)
  then have inj: "inj_on (signo P) (set ?all)"
    using distinct_map by blast
  have sub: "set (fatal_signals P) \<subseteq> set ?all"
    by (auto simp: fatal_signals_def base_labels_def xopen_labels_def)
  have "inj_on (signo P) (set (fatal_signals P))"
    using inj sub by (rule inj_on_subset)
  moreover have "distinct (fatal_signals P)"
    by (simp add: fatal_signals_def)
  ultimately show ?thesis
    using distinct_map by blast
qed

text \<open>
  Claim C8. For every signal of the fatal set (the \<^verbatim>\<open>_XOPEN_UNIX\<close> ones only on such a
  platform), the registrar queries the current disposition and stores it in \<open>oldAction\<close>.
  If that handler is \<^verbatim>\<open>SIG_IGN\<close>, the disposition stays as it was and no installing
  \<^verbatim>\<open>sigaction\<close> call is made for the signal; otherwise the disposition becomes the given
  handler with an empty mask and the flag \<^verbatim>\<open>SA_SIGINFO\<close>.
\<close>

theorem setFatalSignalHandler_installs_unless_ignored:
  assumes "labels_distinct P"
  shows "\<forall>x \<in> set (fatal_signals P).
           SigactionQuery (signo P x)
             \<in> set (new_events s (setFatalSignalHandler P signalHandler s))
         \<and> oldAction (setFatalSignalHandler P signalHandler s) (signo P x)
             = dispositions s (signo P x)
         \<and> (if sa_handler (dispositions s (signo P x)) = SIG_IGN
            then dispositions (setFatalSignalHandler P signalHandler s) (signo P x)
                   = dispositions s (signo P x)
                 \<and> (\<forall>act. SigactionSet (signo P x) act
                       \<notin> set (new_events s (setFatalSignalHandler P signalHandler s)))
            else dispositions (setFatalSignalHandler P signalHandler s) (signo P x)
                   = \<lparr>sa_handler = signalHandler, sa_mask = {}, sa_flags = {SA_SIGINFO}\<rparr>
                 \<and> SigactionSet (signo P x)
                       \<lparr>sa_handler = signalHandler, sa_mask = {}, sa_flags = {SA_SIGINFO}\<rparr>
                     \<in> set (new_events s (setFatalSignalHandler P signalHandler s)))"
proof
  fix x assume x: "x \<in> set (fatal_signals P)"
  note d = fatal_signals_distinct [OF assms]
  have m: "signo P x \<in> set (map (signo P) (fatal_signals P))"
    using x by simp
  show "SigactionQuery (signo P x)
             \<in> set (new_events s (setFatalSignalHandler P signalHandler s))
         \<and> oldAction (setFatalSignalHandler P signalHandler s) (signo P x)
             = dispositions s (signo P x)
         \<and> (if sa_handler (dispositions s (signo P x)) = SIG_IGN
            then dispositions (setFatalSignalHandler P signalHandler s) (signo P x)
                   = dispositions s (signo P x)
                 \<and> (\<forall>act. SigactionSet (signo P x) act
                       \<notin> set (new_events s (setFatalSignalHandler P signalHandler s)))
            else dispositions (setFatalSignalHandler P signalHandler s) (signo P x)
                   = \<lparr>sa_handler = signalHandler, sa_mask = {}, sa_flags = {SA_SIGINFO}\<rparr>
                 \<and> SigactionSet (signo P x)
                       \<lparr>sa_handler = signalHandler, sa_mask = {}, sa_flags = {SA_SIGINFO}\<rparr>
                     \<in> set (new_events s (setFatalSignalHandler P signalHandler s)))"
    using m x
    unfolding setFatalSignalHandler_fold new_events_def
      fold_install_dispositions [OF d] fold_install_oldAction [OF d] fold_install_trace [OF d]
    by (auto split: if_splits)
qed

text \<open>On Linux, with \<^verbatim>\<open>SIGQUIT\<close> (3) ignored and a handler of the program's own on
  \<^verbatim>\<open>SIGSEGV\<close> (11).\<close>

theorem setFatalSignalHandler_installs_unless_ignored_witness:
  "SigactionQuery 3 \<in> set (new_events with_previous_handler chained)
   \<and> oldAction chained 3 = \<lparr>sa_handler = SIG_IGN, sa_mask = {}, sa_flags = {}\<rparr>
   \<and> dispositions chained 3 = \<lparr>sa_handler = SIG_IGN, sa_mask = {}, sa_flags = {}\<rparr>
   \<and> SigactionQuery 11 \<in> set (new_events with_previous_handler chained)
   \<and> oldAction chained 11 = \<lparr>sa_handler = OtherHandler 7, sa_mask = {}, sa_flags = {}\<rparr>
   \<and> dispositions chained 11
       = \<lparr>sa_handler = PosixExceptionHandler, sa_mask = {}, sa_flags = {SA_SIGINFO}\<rparr>"
proof -
  note t = setFatalSignalHandler_installs_unless_ignored
    [OF labels_distinct_linux, of with_previous_handler PosixExceptionHandler,
     folded chained_def]
  have q: "SIGQUIT \<in> set (fatal_signals linux)" "SIGSEGV \<in> set (fatal_signals linux)"
    by (simp_all add: fatal_signals_def)
  have v: "signo linux SIGQUIT = 3" "signo linux SIGSEGV = 11"
    by (simp_all add: linux_def)
  have d: "dispositions with_previous_handler 3
             = \<lparr>sa_handler = SIG_IGN, sa_mask = {}, sa_flags = {}\<rparr>"
    "dispositions with_previous_handler 11
             = \<lparr>sa_handler = OtherHandler 7, sa_mask = {}, sa_flags = {}\<rparr>"
    by (simp_all add: with_previous_handler_def startup_def)
  show ?thesis
    using t [THEN bspec, OF q(1)] t [THEN bspec, OF q(2)]
    by (simp add: v d)
qed

text \<open>The concrete processes after registration.\<close>

lemma registered_fields:
  assumes "x \<in> set (fatal_signals linux)"
    and "sa_handler (dispositions s (signo linux x)) \<noteq> SIG_IGN"
  shows "dispositions (setFatalSignalHandler linux PosixExceptionHandler s) (signo linux x)
           = \<lparr>sa_handler = PosixExceptionHandler, sa_mask = {}, sa_flags = {SA_SIGINFO}\<rparr>"
    "oldAction (setFatalSignalHandler linux PosixExceptionHandler s) (signo linux x)
           = dispositions s (signo linux x)"
    "allreadyRunning (setFatalSignalHandler linux PosixExceptionHandler s) = allreadyRunning s"
    "sigmask (setFatalSignalHandler linux PosixExceptionHandler s) = sigmask s"
    "programIsAvailable (setFatalSignalHandler linux PosixExceptionHandler s)
       = programIsAvailable s"
    "gdbIsAvailable (setFatalSignalHandler linux PosixExceptionHandler s) = gdbIsAvailable s"
  using assms
  by (simp_all add: setFatalSignalHandler_fold fold_install_unchanged
      fold_install_dispositions [OF fatal_signals_distinct [OF labels_distinct_linux]]
      fold_install_oldAction [OF fatal_signals_distinct [OF labels_distinct_linux]])


lemma installed_fields:
  "dispositions installed 11
     = \<lparr>sa_handler = PosixExceptionHandler, sa_mask = {}, sa_flags = {SA_SIGINFO}\<rparr>"
  "oldAction installed 11 = default_action"
  "allreadyRunning installed = False" "sigmask installed = {}"
  "programIsAvailable installed" "gdbIsAvailable installed"
  using registered_fields [of SIGSEGV startup]
  by (simp_all add: installed_def fatal_signals_def linux_def startup_def default_action_def)

section \<open>Properties of the fault responder\<close>

lemma sys_raise_blocked:
  "sig \<in> sigmask s \<Longrightarrow>
   sys_raise sig s = Returned () ((emit (Raise sig) s)\<lparr>sigpending := insert sig (sigpending s)\<rparr>)"
  by (simp add: sys_raise_def emit_def Let_def)

lemma sys_raise_trace: "trace (final (sys_raise sig s)) = trace s @ [Raise sig]"
  by (simp add: sys_raise_def emit_def Let_def final_def split: handler.splits)


lemma gdbExtendedBacktrace_trace:
  "\<exists>evs. trace (final (gdbExtendedBacktrace P E fd t)) = trace t @ evs"
  by (auto simp: gdbExtendedBacktrace_def execGdb_def call_defs Let_def final_def
      split: if_splits option.splits prod.splits)


text \<open>The state in which the debugger orchestration is called on a run that got its dump
  file.\<close>

lemma dump_sections_fields:
  "allreadyRunning (dump_sections P fd si s) = allreadyRunning s"
  "oldAction (dump_sections P fd si s) = oldAction s"
  "dispositions (dump_sections P fd si s) = dispositions s"
  "sigmask (dump_sections P fd si s) = sigmask s"
  "sigpending (dump_sections P fd si s) = sigpending s"
  by (simp_all add: dump_sections_def call_defs Let_def)

lemma dump_sections_trace:
  "trace (dump_sections P fd si s)
   = trace s @ [DbgDumpHeader fd, Write fd ''Dump caused by signal: '',
                Write fd (wz_strsignal P (si_signo si) (si_code si)), Write fd [LF, LF],
                DbgDumpLog fd]
       @ (if GLIBC P then [Write fd (''GLIBC raw backtrace:'' @ [LF]), BacktraceSymbolsFd fd,
                            Write fd [LF]]
          else [Write fd (''GLIBC not available, no raw backtrace dumped'' @ [LF, LF])])
       @ [Fsync fd]"
  by (simp add: dump_sections_def call_defs Let_def)

lemma before_dump_fields:
  "allreadyRunning (before_dump P E s) = True"
  "oldAction (before_dump P E s) = oldAction s"
  "dispositions (before_dump P E s) = dispositions s"
  "sigmask (before_dump P E s) = sigmask s"
  "sigpending (before_dump P E s) = sigpending s"
  "trace (before_dump P E s)
   = trace s @ (if GLIBC P then [Backtrace MAX_BACKTRACE] else [])
       @ [Mkstemp gdmpPath (mkstemp_result E)]"
  by (simp_all add: before_dump_def call_defs Let_def)

lemma posixExceptionHandler_first_entry:
  assumes "\<not> allreadyRunning s"
  shows "posixExceptionHandler P E signum si s =
    (if mkstemp_result E = -1 then
       Returned () (printf (''Failed to create dump file '' @ [SQ] @ mkstemp_filename E @ [SQ])
                      (before_dump P E s))
     else
       (case gdbExtendedBacktrace P E (mkstemp_result E)
               (dump_sections P (mkstemp_result E) si (before_dump P E s)) of
          Stopped why s5 \<Rightarrow> Stopped why s5
        | Returned ok s5 \<Rightarrow> after_dump E signum s5))"
  using assms
  by (simp add: posixExceptionHandler_def before_dump_def after_dump_def Let_def
      split: outcome.split)

lemma after_dump_blocked:
  assumes "signum \<in> sigmask s5"
  shows "after_dump E signum s5
         = Returned () (s5\<lparr>trace := trace s5
               @ [Printf (''Saved dump file to '' @ [SQ] @ mkstemp_filename E @ [SQ] @ [LF]
                    @ ''If you create a bugreport regardings this crash, please include this file.''
                    @ [LF]),
                  Close (mkstemp_result E), SigactionSet signum (oldAction s5 signum),
                  Raise signum],
             open_fds := open_fds s5 - {mkstemp_result E},
             dispositions := (dispositions s5)(signum := oldAction s5 signum),
             sigpending := insert signum (sigpending s5)\<rparr>)"
  using assms by (simp add: after_dump_def sys_raise_blocked call_defs Let_def)



lemma after_dump_trace:
  "\<exists>rest. trace (final (after_dump E signum s5)) = trace s5 @ rest"
  by (simp add: after_dump_def sys_raise_trace call_defs Let_def)

lemma posixExceptionHandler_trace_first_entry:
  assumes "\<not> allreadyRunning s" and "mkstemp_result E \<noteq> -1"
  shows "\<exists>rest. trace (final (posixExceptionHandler P E signum si s))
           = trace (dump_sections P (mkstemp_result E) si (before_dump P E s)) @ rest"
proof -
  define t where "t = dump_sections P (mkstemp_result E) si (before_dump P E s)"
  obtain evs where evs: "trace (final (gdbExtendedBacktrace P E (mkstemp_result E) t)) = trace t @ evs"
    using gdbExtendedBacktrace_trace by blast
  show ?thesis
  proof (cases "gdbExtendedBacktrace P E (mkstemp_result E) t")
    case (Returned ok s5)
    obtain rest where "trace (final (after_dump E signum s5)) = trace s5 @ rest"
      using after_dump_trace by blast
    then show ?thesis
      using assms Returned evs
      by (simp add: posixExceptionHandler_first_entry t_def [symmetric] final_def)
  next
    case (Stopped why s5)
    then show ?thesis
      using assms evs
      by (simp add: posixExceptionHandler_first_entry t_def [symmetric] final_def)
  qed
qed

lemma posixExceptionHandler_reentry:
  assumes "allreadyRunning s" and "signum \<in> sigmask s"
  shows "posixExceptionHandler P E signum siginfo s
         = posixExceptionHandler P E signum siginfo
             ((emit (Raise signum) s)\<lparr>sigpending := insert signum (sigpending s),
                                      allreadyRunning := False\<rparr>)"
  using assms
  by (simp add: posixExceptionHandler_def sys_raise_blocked emit_def)

text \<open>
  Claim C7. Whenever the dump file was created, the calls of the responder up to the
  \<^verbatim>\<open>fsync\<close> are: the re-raise of a re-entered run, the capture of the backtrace addresses
  (with glibc), \<^verbatim>\<open>mkstemp\<close>, and then the four sections in this order: the header from
  \<^verbatim>\<open>dbgDumpHeader\<close>; the line with the description from \<^verbatim>\<open>wz_strsignal\<close>; the recent log lines
  from \<^verbatim>\<open>dbgDumpLog\<close>; the raw backtrace (with glibc) or the note that none was dumped.
\<close>

theorem dump_sections_written_in_order:
  assumes guard: "\<not> allreadyRunning s \<or> signum \<in> sigmask s"
    and created: "mkstemp_result E = dumpFile" "dumpFile \<noteq> -1"
  shows "\<exists>rest. new_events s (final (posixExceptionHandler P E signum siginfo s))
           = (if allreadyRunning s then [Raise signum] else [])
             @ (if GLIBC P then [Backtrace MAX_BACKTRACE] else [])
             @ [Mkstemp gdmpPath dumpFile]
             @ [DbgDumpHeader dumpFile]
             @ [Write dumpFile ''Dump caused by signal: '',
                Write dumpFile (wz_strsignal P (si_signo siginfo) (si_code siginfo)),
                Write dumpFile [LF, LF]]
             @ [DbgDumpLog dumpFile]
             @ (if GLIBC P
                then [Write dumpFile (''GLIBC raw backtrace:'' @ [LF]),
                      BacktraceSymbolsFd dumpFile, Write dumpFile [LF]]
                else [Write dumpFile (''GLIBC not available, no raw backtrace dumped''
                                       @ [LF, LF])])
             @ [Fsync dumpFile] @ rest"
proof (cases "allreadyRunning s")
  case False
  obtain rest where "trace (final (posixExceptionHandler P E signum siginfo s))
           = trace (dump_sections P (mkstemp_result E) siginfo (before_dump P E s)) @ rest"
    using posixExceptionHandler_trace_first_entry [OF False] created by blast
  then show ?thesis
    using False created
    by (simp add: new_events_def dump_sections_trace before_dump_fields)
next
  case True
  then have b: "signum \<in> sigmask s" using guard by simp
  define s0 where "s0 = (emit (Raise signum) s)\<lparr>sigpending := insert signum (sigpending s),
                                      allreadyRunning := False\<rparr>"
  have idle: "\<not> allreadyRunning s0" by (simp add: s0_def)
  have tr: "trace s0 = trace s @ [Raise signum]" by (simp add: s0_def emit_def)
  obtain rest where "trace (final (posixExceptionHandler P E signum siginfo s0))
           = trace (dump_sections P (mkstemp_result E) siginfo (before_dump P E s0)) @ rest"
    using posixExceptionHandler_trace_first_entry [OF idle] created by blast
  then show ?thesis
    using True created tr
    by (simp add: posixExceptionHandler_reentry [OF True b] s0_def [symmetric]
        new_events_def dump_sections_trace before_dump_fields)
qed

lemma registered_pending:
  "sigpending (setFatalSignalHandler linux PosixExceptionHandler s) = sigpending s"
  by (simp add: setFatalSignalHandler_fold fold_install_unchanged)

lemma installed_pending: "sigpending installed = {}"
  by (simp add: installed_def registered_pending startup_def)

lemma wz_strsignal_linux_segv_maperr:
  "wz_strsignal linux 11 1 = ''SIGSEGV: Invalid memory reference: Address not mapped to object''"
  using wz_strsignal_SEGV_MAPERR [OF labels_distinct_linux] by (simp add: linux_def)

text \<open>A first segmentation fault on Linux with glibc.\<close>

theorem dump_sections_written_in_order_witness:
  "\<exists>rest. new_events installed (final (posixExceptionHandler linux all_fine 11 segv_maperr installed))
     = [Backtrace 20, Mkstemp ''/tmp/warzone2100.gdmp-XXXXXX'' 3, DbgDumpHeader 3,
        Write 3 ''Dump caused by signal: '',
        Write 3 ''SIGSEGV: Invalid memory reference: Address not mapped to object'',
        Write 3 [LF, LF], DbgDumpLog 3, Write 3 (''GLIBC raw backtrace:'' @ [LF]),
        BacktraceSymbolsFd 3, Write 3 [LF], Fsync 3] @ rest"
proof -
  have g: "GLIBC linux" by (simp add: linux_def)
  have e: "mkstemp_result all_fine = 3" by (simp add: all_fine_def)
  show ?thesis
    using dump_sections_written_in_order [of installed 11 all_fine 3 linux segv_maperr]
    by (simp add: installed_fields g e segv_maperr_def wz_strsignal_linux_segv_maperr
        MAX_BACKTRACE_def gdmpPath_def)
qed

text \<open>
  Claim C2 says that every path through the responder ends by re-raising the signal. The
  path on which \<^verbatim>\<open>mkstemp\<close> fails does not: in a first invocation the responder prints
  the failure message and returns, without restoring the previous handler and without any
  \<^verbatim>\<open>raise\<close>.
\<close>

theorem mkstemp_failure_returns_without_raise:
  assumes "\<not> allreadyRunning s" and "mkstemp_result E = -1"
  shows "posixExceptionHandler P E signum siginfo s
         = Returned ()
             (s\<lparr>allreadyRunning := True,
                trace := trace s @ (if GLIBC P then [Backtrace MAX_BACKTRACE] else [])
                  @ [Mkstemp gdmpPath (-1),
                     Printf (''Failed to create dump file '' @ [SQ] @ mkstemp_filename E @ [SQ])]\<rparr>)"
  using assms
  by (simp add: posixExceptionHandler_first_entry before_dump_def call_defs Let_def)

text \<open>Delivered by the kernel to the registered process: the responder returns to the
  code that faulted, nothing is pending, and the responder is still the handler.\<close>

theorem mkstemp_failure_returns_without_raise_witness:
  "\<exists>s'. deliver linux no_dump_file 11 segv_maperr installed = Returned () s'
     \<and> new_events installed s'
         = [Backtrace 20, Mkstemp ''/tmp/warzone2100.gdmp-XXXXXX'' (-1),
            Printf (''Failed to create dump file '' @ [SQ] @ ''/tmp/warzone2100.gdmp-Qx7Rt2'' @ [SQ])]
     \<and> sigpending s' = {}
     \<and> sa_handler (dispositions s' 11) = PosixExceptionHandler"
proof -
  have g: "GLIBC linux" by (simp add: linux_def)
  have e: "mkstemp_result no_dump_file = -1"
    "mkstemp_filename no_dump_file = ''/tmp/warzone2100.gdmp-Qx7Rt2''"
    by (simp_all add: no_dump_file_def)
  have i: "\<not> allreadyRunning (installed\<lparr>sigmask := {11}\<rparr>)"
    by (simp add: installed_fields)
  show ?thesis
    using mkstemp_failure_returns_without_raise [OF i e(1), of linux 11 segv_maperr]
    by (simp add: deliver_def handler_return_def Let_def installed_fields installed_pending
        g e new_events_def MAX_BACKTRACE_def gdmpPath_def)
qed

lemma availability_kept:
  "programIsAvailable (dump_sections P fd si s) = programIsAvailable s"
  "gdbIsAvailable (dump_sections P fd si s) = gdbIsAvailable s"
  "programIsAvailable (before_dump P E s) = programIsAvailable s"
  "gdbIsAvailable (before_dump P E s) = gdbIsAvailable s"
  by (simp_all add: dump_sections_def before_dump_def call_defs Let_def)

text \<open>A complete run of the handler in the crashing process, entered with the flag
  clear and the signal blocked, when every call succeeds up to \<^verbatim>\<open>waitpid\<close>.\<close>

lemma posixExceptionHandler_full_run:
  assumes idle: "\<not> allreadyRunning s" and blocked: "signum \<in> sigmask s"
    and created: "mkstemp_result E = fd" "fd \<noteq> -1"
    and avail: "programIsAvailable s" "gdbIsAvailable s"
    and spawn: "pipe_result E = Some (r, wr)" "fork_result E = pid" "pid \<noteq> -1" "pid \<noteq> 0"
    and waited: "waitpid_result E = -1 \<or> waitpid_result E = pid"
  shows "\<exists>s'. posixExceptionHandler P E signum si s = Returned () s'
          \<and> trace s' = trace (dump_sections P fd si (before_dump P E s))
              @ [Pipe (Some (r, wr)), Fork pid, Write wr (gdbCommands @ [NUL]), Fsync wr,
                 Waitpid pid (waitpid_result E) (waitpid_status E), Close wr]
              @ (if waitpid_result E \<noteq> -1 \<and> WIFEXITED P (waitpid_status E)
                        \<and> WEXITSTATUS P (waitpid_status E) = 0 then []
                 else [Write fd (''GDB failed'' @ [LF]), Printf (''GDB failed'' @ [LF])])
              @ [Printf (''Saved dump file to '' @ [SQ] @ mkstemp_filename E @ [SQ] @ [LF]
                    @ ''If you create a bugreport regardings this crash, please include this file.''
                    @ [LF]),
                 Close fd, SigactionSet signum (oldAction s signum), Raise signum]
          \<and> dispositions s' = (dispositions s)(signum := oldAction s signum)
          \<and> sigpending s' = insert signum (sigpending s)
          \<and> sigmask s' = sigmask s"
proof -
  define t where "t = dump_sections P fd si (before_dump P E s)"
  have t: "programIsAvailable t" "gdbIsAvailable t" "signum \<in> sigmask t"
    "oldAction t = oldAction s" "dispositions t = dispositions s"
    "sigpending t = sigpending s" "sigmask t = sigmask s"
    using avail blocked
    by (simp_all add: t_def availability_kept dump_sections_fields before_dump_fields)
  define t' where "t' = t\<lparr>trace := trace t
                       @ [Pipe (Some (r, wr)), Fork pid, Write wr (gdbCommands @ [NUL]), Fsync wr,
                          Waitpid pid (waitpid_result E) (waitpid_status E), Close wr]
                       @ (if waitpid_result E \<noteq> -1 \<and> WIFEXITED P (waitpid_status E)
                        \<and> WEXITSTATUS P (waitpid_status E) = 0 then []
                          else [Write fd (''GDB failed'' @ [LF]),
                                Printf (''GDB failed'' @ [LF])]),
                     open_fds := open_fds t \<union> {r, wr} - {wr}\<rparr>"
  have g: "\<exists>ok. gdbExtendedBacktrace P E fd t = Returned ok t'"
    using gdbExtendedBacktrace_spawned [OF t(1,2) spawn waited, of P fd]
    by (simp add: Let_def t'_def)
  have b': "signum \<in> sigmask t'" using t(3) by (simp add: t'_def)
  have h: "posixExceptionHandler P E signum si s = after_dump E signum t'"
    using idle created g
    by (auto simp: posixExceptionHandler_first_entry t_def [symmetric])
  show ?thesis
    unfolding h after_dump_blocked [OF b']
    using t(4-7) created(1) by (simp add: t'_def t_def [symmetric])
qed

text \<open>The kernel enters the registered responder with the signal added to the mask.\<close>

lemma deliver_runs_handler_blocked:
  assumes "dispositions s signum
            = \<lparr>sa_handler = PosixExceptionHandler, sa_mask = {}, sa_flags = {SA_SIGINFO}\<rparr>"
    and "signum \<notin> sigmask s"
  shows "deliver P E signum siginfo s
         = (case posixExceptionHandler P E signum siginfo (s\<lparr>sigmask := insert signum (sigmask s)\<rparr>) of
              Stopped why s2 \<Rightarrow> Stopped why s2
            | Returned u s2 \<Rightarrow> handler_return signum (sigmask s) s2)"
  using assms by (simp add: deliver_def Let_def)

text \<open>
  Claim C1 says that a fault delivered while an earlier invocation is running re-raises
  the signal and does not execute the capture logic. The kernel blocks a signal while its
  handler runs (the responder is installed without \<^verbatim>\<open>SA_NODEFER\<close>), so the \<^verbatim>\<open>raise\<close> of the
  guard only leaves the signal pending and returns, and no \<^verbatim>\<open>return\<close> follows it: the
  re-entered invocation goes on exactly as a first invocation would.
\<close>

theorem reentrant_fault_repeats_capture:
  assumes "allreadyRunning s" and "signum \<in> sigmask s"
  shows "posixExceptionHandler P E signum siginfo s
         = posixExceptionHandler P E signum siginfo
             ((emit (Raise signum) s)\<lparr>sigpending := insert signum (sigpending s),
                                      allreadyRunning := False\<rparr>)"
  using assms by (rule posixExceptionHandler_reentry)

text \<open>While the responder handles \<^verbatim>\<open>SIGABRT\<close>, a segmentation fault is delivered: the
  re-entered responder creates a second dump file and spawns a second debugger, and the
  process ends by the default action of signal 11 only after that.\<close>

theorem reentrant_fault_repeats_capture_witness:
  "\<exists>s'. deliver linux all_fine 11 segv_maperr during_first_fault = Stopped (Killed_by 11) s'
     \<and> take 4 (new_events during_first_fault s')
         = [Raise 11, Backtrace 20, Mkstemp ''/tmp/warzone2100.gdmp-XXXXXX'' 3, DbgDumpHeader 3]
     \<and> Fork 4712 \<in> set (new_events during_first_fault s')"
proof -
  define s where "s = during_first_fault\<lparr>sigmask := insert 11 (sigmask during_first_fault)\<rparr>"
  define s0 where "s0 = (emit (Raise 11) s)\<lparr>sigpending := insert 11 (sigpending s),
                                      allreadyRunning := False\<rparr>"
  have d: "dispositions during_first_fault 11
            = \<lparr>sa_handler = PosixExceptionHandler, sa_mask = {}, sa_flags = {SA_SIGINFO}\<rparr>"
    "sigmask during_first_fault = {6}" "11 \<notin> sigmask during_first_fault"
    by (simp_all add: during_first_fault_def installed_fields)
  have s: "allreadyRunning s" "11 \<in> sigmask s"
    by (simp_all add: s_def during_first_fault_def)
  have s0: "\<not> allreadyRunning s0" "11 \<in> sigmask s0" "programIsAvailable s0" "gdbIsAvailable s0"
    "trace s0 = trace during_first_fault @ [Raise 11]"
    "oldAction s0 11 = default_action"
    by (simp_all add: s0_def s_def during_first_fault_def emit_def installed_fields)
  have e: "mkstemp_result all_fine = 3" "(3::int) \<noteq> -1" "pipe_result all_fine = Some (4, 5)"
    "fork_result all_fine = 4712" "(4712::int) \<noteq> -1" "(4712::int) \<noteq> 0"
    "waitpid_result all_fine = -1 \<or> waitpid_result all_fine = 4712"
    by (simp_all add: all_fine_def)
  have g: "GLIBC linux" by (simp add: linux_def)
  have r: "posixExceptionHandler linux all_fine 11 segv_maperr s
           = posixExceptionHandler linux all_fine 11 segv_maperr s0"
    unfolding s0_def by (rule reentrant_fault_repeats_capture [OF s])
  obtain s' where s': "posixExceptionHandler linux all_fine 11 segv_maperr s0 = Returned () s'"
    "trace s' = trace (dump_sections linux 3 segv_maperr (before_dump linux all_fine s0))
              @ [Pipe (Some (4, 5)), Fork 4712, Write 5 (gdbCommands @ [NUL]), Fsync 5,
                 Waitpid 4712 (waitpid_result all_fine) (waitpid_status all_fine), Close 5]
              @ (if waitpid_result all_fine \<noteq> -1 \<and> WIFEXITED linux (waitpid_status all_fine)
                        \<and> WEXITSTATUS linux (waitpid_status all_fine) = 0 then []
                 else [Write 3 (''GDB failed'' @ [LF]), Printf (''GDB failed'' @ [LF])])
              @ [Printf (''Saved dump file to '' @ [SQ] @ mkstemp_filename all_fine @ [SQ] @ [LF]
                    @ ''If you create a bugreport regardings this crash, please include this file.''
                    @ [LF]),
                 Close 3, SigactionSet 11 (oldAction s0 11), Raise 11]"
    "dispositions s' = (dispositions s0)(11 := oldAction s0 11)"
    "sigpending s' = insert 11 (sigpending s0)"
    using posixExceptionHandler_full_run [OF s0(1,2) e(1,2) s0(3,4) e(3-7), of linux segv_maperr]
    by blast
  define s2 where "s2 = s'\<lparr>sigmask := {6}, sigpending := sigpending s' - {11}\<rparr>"
  have k: "deliver linux all_fine 11 segv_maperr during_first_fault = Stopped (Killed_by 11) s2"
    unfolding deliver_runs_handler_blocked [OF d(1,3)] s_def [symmetric] r s'(1)
    by (simp add: handler_return_def Let_def d(2) s'(3,4) s0(6) default_action_def s2_def)
  have "take 4 (new_events during_first_fault s2)
         = [Raise 11, Backtrace 20, Mkstemp ''/tmp/warzone2100.gdmp-XXXXXX'' 3, DbgDumpHeader 3]"
    by (simp add: s2_def s'(2) new_events_def dump_sections_trace before_dump_fields s0(5) g e(1)
        MAX_BACKTRACE_def gdmpPath_def)
  moreover have "Fork 4712 \<in> set (new_events during_first_fault s2)"
    by (simp add: s2_def s'(2) new_events_def dump_sections_trace before_dump_fields s0(5))
  ultimately show ?thesis
    using k by blast
qed

section \<open>Properties of the tool locator\<close>

lemma takeWhile_absent: "a \<notin> set xs \<Longrightarrow> takeWhile (\<lambda>c. c \<noteq> a) xs = xs"
  by (induction xs) auto

lemma takeWhile_present:
  "a \<in> set xs \<Longrightarrow> length (takeWhile (\<lambda>c. c \<noteq> a) xs) < length xs"
  by (induction xs) auto

lemma c_str_no_NUL: "NUL \<notin> set xs \<Longrightarrow> c_str xs = xs"
  by (simp add: c_str_def takeWhile_absent)

lemma c_str_append_NUL: "c_str (xs @ NUL # ys) = c_str xs"
  by (induction xs) (simp_all add: c_str_def)

lemma c_str_before_NUL: "NUL \<notin> set pre \<Longrightarrow> c_str (pre @ NUL # ys) = pre"
  by (simp add: c_str_append_NUL c_str_no_NUL)

lemma NUL_notin_c_str: "NUL \<notin> set (c_str xs)"
  unfolding c_str_def by (induction xs) auto

text \<open>The buffer after \<^verbatim>\<open>memset\<close> and \<^verbatim>\<open>fread\<close>, when the stream ended before the buffer
  was full.\<close>

lemma buffer_after_fread:
  assumes "length out < bufSize"
  shows "replicate (bufSize - length out) NUL = NUL # replicate (bufSize - Suc (length out)) NUL"
proof -
  have "bufSize - length out = Suc (bufSize - Suc (length out))"
    using assms by simp
  then show ?thesis
    by (metis replicate_Suc)
qed

text \<open>Cutting the C string of a buffer at its first linefeed.\<close>

lemma cut_at_linefeed:
  assumes "buf = out @ NUL # pad"
  shows "c_str (case strchr buf LF of None \<Rightarrow> buf | Some i \<Rightarrow> buf[i := NUL])
         = takeWhile (\<lambda>c. c \<noteq> LF) (c_str out)"
    and "NUL \<in> set (case strchr buf LF of None \<Rightarrow> buf | Some i \<Rightarrow> buf[i := NUL])"
    and "length (case strchr buf LF of None \<Rightarrow> buf | Some i \<Rightarrow> buf[i := NUL]) = length buf"
proof -
  have cs: "c_str buf = c_str out"
    by (simp add: assms c_str_append_NUL)
  let ?pre = "takeWhile (\<lambda>c. c \<noteq> LF) (c_str out)"
  show "c_str (case strchr buf LF of None \<Rightarrow> buf | Some i \<Rightarrow> buf[i := NUL]) = ?pre"
  proof (cases "LF \<in> set (c_str out)")
    case False
    then show ?thesis
      by (simp add: strchr_def cs takeWhile_absent)
  next
    case True
    then obtain post where split: "c_str out = ?pre @ LF # post"
      by (metis (mono_tags, lifting) takeWhile_dropWhile_id dropWhile_eq_Nil_conv hd_dropWhile
          list.exhaust_sel)
    have "out = c_str out @ dropWhile (\<lambda>c. c \<noteq> NUL) out"
      by (simp add: c_str_def)
    then have b: "buf = ?pre @ LF # (post @ dropWhile (\<lambda>c. c \<noteq> NUL) out @ NUL # pad)"
      using assms split by (metis append.assoc append_Cons)
    have nn: "NUL \<notin> set ?pre"
      using NUL_notin_c_str [of out] by (metis set_takeWhileD)
    have "buf[length ?pre := NUL]
          = ?pre @ NUL # (post @ dropWhile (\<lambda>c. c \<noteq> NUL) out @ NUL # pad)"
      by (subst b) (simp add: list_update_append)
    then show ?thesis
      using True nn by (simp add: strchr_def cs c_str_before_NUL)
  qed
  show "NUL \<in> set (case strchr buf LF of None \<Rightarrow> buf | Some i \<Rightarrow> buf[i := NUL])"
  proof (cases "strchr buf LF")
    case None
    then show ?thesis by (simp add: assms)
  next
    case (Some i)
    then have "i < length (c_str buf)"
      by (auto simp: strchr_def takeWhile_present split: if_splits)
    moreover have "length (c_str buf) \<le> length buf"
      by (simp add: c_str_def length_takeWhile_le)
    ultimately have "i < length buf" by simp
    then show ?thesis
      using Some by (simp add: set_update_memI)
  qed
  show "length (case strchr buf LF of None \<Rightarrow> buf | Some i \<Rightarrow> buf[i := NUL]) = length buf"
    by (simp split: option.split)
qed

text \<open>
  Claim C9. When \<^verbatim>\<open>popen\<close> gave a stream that delivered \<open>out\<close>, \<^verbatim>\<open>fetchProgramPath\<close> returns
  false exactly when \<open>out\<close> has at least \<open>bufSize\<close> bytes (it fills the buffer) or the
  string \<open>out\<close> holds is empty once cut at its first linefeed. When it returns true the
  buffer holds that cut string: not empty, ended by a NUL inside the buffer, without a
  linefeed. (For an output without NUL bytes the string it holds is \<open>out\<close> itself.)
\<close>

theorem fetchProgramPath_result:
  assumes "popen (take (PATH_MAX P - 1) (''which '' @ programCommand)) = Some out"
  shows "\<exists>ok buf lvl msg.
           fetchProgramPath P popen bufSize programCommand = Some (ok, buf, lvl, msg)
         \<and> length buf = bufSize
         \<and> (\<not> ok \<longleftrightarrow> bufSize \<le> length out \<or> takeWhile (\<lambda>c. c \<noteq> LF) (c_str out) = [])
         \<and> (NUL \<notin> set out \<longrightarrow>
              (\<not> ok \<longleftrightarrow> bufSize \<le> length out \<or> takeWhile (\<lambda>c. c \<noteq> LF) out = []))
         \<and> (ok \<longrightarrow> c_str buf = takeWhile (\<lambda>c. c \<noteq> LF) (c_str out) \<and> c_str buf \<noteq> []
                    \<and> NUL \<in> set buf \<and> LF \<notin> set (c_str buf))"
proof (cases "bufSize \<le> length out")
  case True
  then have "fetchProgramPath P popen bufSize programCommand
        = Some (False, take bufSize out, LOG_WARNING,
                ''Could not retrieve full path to '' @ [DQ] @ programCommand @ [DQ]
                @ '', as our buffer is too small. This may prevent creation of an extended backtrace.'')"
    using assms by (simp add: fetchProgramPath_def Let_def min_def)
  moreover have "length (take bufSize out) = bufSize"
    using True by simp
  ultimately show ?thesis
    using True by blast
next
  case False
  then have short: "length out < bufSize" by simp
  define buf1 where "buf1 = out @ NUL # replicate (bufSize - Suc (length out)) NUL"
  define buf2 where "buf2 = (case strchr buf1 LF of None \<Rightarrow> buf1 | Some i \<Rightarrow> buf1[i := NUL])"
  note cut = cut_at_linefeed [OF buf1_def, folded buf2_def]
  have len: "length buf2 = bufSize"
    using short by (simp add: cut(3) buf1_def)
  have nolf: "LF \<notin> set (c_str buf2)"
    unfolding cut(1) by (metis (mono_tags, lifting) set_takeWhileD)
  have run: "fetchProgramPath P popen bufSize programCommand
        = (if strlen buf2 = 0 then
             Some (False, buf2, LOG_WARNING,
                   ''Could not retrieve full path to '' @ [DQ] @ programCommand @ [DQ]
                   @ ''. This may prevent creation of an extended backtrace.'')
           else
             Some (True, buf2, LOG_WZ,
                   ''Found program '' @ [DQ] @ programCommand @ [DQ] @ '' at path ''
                   @ [DQ] @ c_str buf2 @ [DQ]))"
    using assms short
    by (simp add: fetchProgramPath_def Let_def min_def buffer_after_fread buf2_def buf1_def
        cong: option.case_cong)
  have pre: "c_str buf2 = takeWhile (\<lambda>c. c \<noteq> LF) (c_str out)"
    by (rule cut(1))
  have plain: "NUL \<notin> set out \<Longrightarrow> takeWhile (\<lambda>c. c \<noteq> LF) out = c_str buf2"
    by (simp add: pre c_str_no_NUL)
  show ?thesis
  proof (cases "c_str buf2 = []")
    case True
    have "fetchProgramPath P popen bufSize programCommand
          = Some (False, buf2, LOG_WARNING,
                   ''Could not retrieve full path to '' @ [DQ] @ programCommand @ [DQ]
                   @ ''. This may prevent creation of an extended backtrace.'')"
      using True by (simp add: run strlen_def)
    moreover have "(\<not> False) = (bufSize \<le> length out
                      \<or> takeWhile (\<lambda>c. c \<noteq> LF) (c_str out) = [])"
      using True pre by simp
    moreover have "NUL \<notin> set out \<longrightarrow>
        (\<not> False) = (bufSize \<le> length out \<or> takeWhile (\<lambda>c. c \<noteq> LF) out = [])"
      using True plain by simp
    ultimately show ?thesis
      using len by blast
  next
    case nonempty: False
    have "fetchProgramPath P popen bufSize programCommand
          = Some (True, buf2, LOG_WZ,
                   ''Found program '' @ [DQ] @ programCommand @ [DQ] @ '' at path ''
                   @ [DQ] @ c_str buf2 @ [DQ])"
      using nonempty by (simp add: run strlen_def)
    moreover have "(\<not> True) = (bufSize \<le> length out
                      \<or> takeWhile (\<lambda>c. c \<noteq> LF) (c_str out) = [])"
      using nonempty pre False by simp
    moreover have "NUL \<notin> set out \<longrightarrow>
        (\<not> True) = (bufSize \<le> length out \<or> takeWhile (\<lambda>c. c \<noteq> LF) out = [])"
      using nonempty plain False by simp
    ultimately show ?thesis
      using len pre nonempty cut(2) nolf by blast
  qed
qed

text \<open>The path of the debugger with a buffer of 16 bytes, and with one of 13 bytes, which
  the 13 bytes of output fill.\<close>

theorem fetchProgramPath_result_witness:
  "(\<exists>buf lvl msg. fetchProgramPath linux which_answers 16 ''gdb'' = Some (True, buf, lvl, msg)
       \<and> c_str buf = ''/usr/bin/gdb'' \<and> NUL \<in> set buf)
   \<and> (\<exists>buf lvl msg. fetchProgramPath linux which_answers 13 ''gdb''
                          = Some (False, buf, lvl, msg))"
proof -
  have p: "which_answers (take (PATH_MAX linux - 1) (''which '' @ ''gdb''))
           = Some (''/usr/bin/gdb'' @ [LF])"
    by (simp add: which_answers_def linux_def)
  have c: "takeWhile (\<lambda>c. c \<noteq> LF) (c_str (''/usr/bin/gdb'' @ [LF])) = ''/usr/bin/gdb''"
    by (simp add: c_str_def LF_def NUL_def)
  obtain ok buf lvl msg where a:
    "fetchProgramPath linux which_answers 16 ''gdb'' = Some (ok, buf, lvl, msg)"
    "(\<not> ok) = (16 \<le> length (''/usr/bin/gdb'' @ [LF])
                 \<or> takeWhile (\<lambda>c. c \<noteq> LF) (c_str (''/usr/bin/gdb'' @ [LF])) = [])"
    "ok \<longrightarrow> c_str buf = takeWhile (\<lambda>c. c \<noteq> LF) (c_str (''/usr/bin/gdb'' @ [LF]))
           \<and> c_str buf \<noteq> [] \<and> NUL \<in> set buf \<and> LF \<notin> set (c_str buf)"
    using fetchProgramPath_result
      [where popen = which_answers and P = linux and programCommand = "''gdb''"
         and out = "''/usr/bin/gdb'' @ [LF]" and bufSize = 16, OF p]
    by blast
  have ok: ok using a(2) by (simp add: c_str_def LF_def NUL_def)
  obtain ok' buf' lvl' msg' where b:
    "fetchProgramPath linux which_answers 13 ''gdb'' = Some (ok', buf', lvl', msg')"
    "(\<not> ok') = (13 \<le> length (''/usr/bin/gdb'' @ [LF])
                 \<or> takeWhile (\<lambda>c. c \<noteq> LF) (c_str (''/usr/bin/gdb'' @ [LF])) = [])"
    using fetchProgramPath_result
      [where popen = which_answers and P = linux and programCommand = "''gdb''"
         and out = "''/usr/bin/gdb'' @ [LF]" and bufSize = 13, OF p]
    by blast
  have nok: "\<not> ok'" using b(2) by simp
  show ?thesis
    using a(1,3) ok b(1) nok by (simp add: c_str_def LF_def NUL_def)
qed

end
